theory Spec2Isabelle
  imports Main "HOL-Library.Word"
begin

section \<open>Python values used by the editor\<close>

text \<open>
  The editor (\<^verbatim>\<open>gamemaker_03.py\<close>) is a PyQt5 program.  Its project state lives in four
  Python lists and four selection indices of the main window \<^verbatim>\<open>GameMakerIDE\<close>.  The model
  keeps that state in a record and passes it explicitly; whatever a dialog or a widget
  hands back to a handler (the text typed, the button pressed, the row clicked, the file
  read) is an argument of the handler's model.  The list widgets that mirror the
  collections, the decoded pixmaps and movies, and the canvas repaint are Qt objects and
  are not part of the state.

  Python integers are \<open>int\<close>, \<^verbatim>\<open>None\<close> is \<open>None\<close>, \<^verbatim>\<open>bytes\<close> are lists of 8-bit words and
  \<^verbatim>\<open>str\<close> is \<open>string\<close>: a \<open>char\<close> is one code point from U+0000 to U+00FF, so a text with
  a code point above U+00FF is not a value of the model.
\<close>

type_synonym bytes = "8 word list"

datatype py_error =
  IndexError | KeyError string | ValueError | TypeError | OSError | OverflowError | AttributeError

text \<open>Python's \<^verbatim>\<open>xs[i]\<close>: a position of the list, or a negative index no further back than
  the list is long, which counts from the end; any other index raises \<^verbatim>\<open>IndexError\<close>.\<close>

definition py_getitem :: "'a list \<Rightarrow> int \<Rightarrow> py_error + 'a" where
  "py_getitem xs i =
     (if 0 \<le> i \<and> i < int (length xs) then Inr (xs ! nat i)
      else if i < 0 \<and> - int (length xs) \<le> i then Inr (xs ! nat (int (length xs) + i))
      else Inl IndexError)"

text \<open>\<^verbatim>\<open>del xs[k]\<close> for an index already checked to be in range.\<close>

definition delete_at :: "'a list \<Rightarrow> nat \<Rightarrow> 'a list" where
  "delete_at xs k = take k xs @ drop (Suc k) xs"

text \<open>The guard \<^verbatim>\<open>idx is not None and 0 <= idx < len(xs)\<close> that every handler working on a
  selected entry starts with.\<close>

definition selected_in :: "int option \<Rightarrow> 'a list \<Rightarrow> bool" where
  "selected_in idx xs = (case idx of None \<Rightarrow> False | Some i \<Rightarrow> 0 \<le> i \<and> i < int (length xs))"

subsection \<open>Strings\<close>

text \<open>The characters that \<^verbatim>\<open>str.strip()\<close> removes, up to U+00FF: tab, line feed, vertical
  tab, form feed, carriage return, the four separators 0x1C..0x1F, the space, the next-line
  control 0x85 and the no-break space 0xA0.\<close>

definition py_isspace :: "char \<Rightarrow> bool" where
  "py_isspace c =
     (let n = (of_char c :: nat)
      in (9 \<le> n \<and> n \<le> 13) \<or> (28 \<le> n \<and> n \<le> 32) \<or> n = 133 \<or> n = 160)"

definition strip :: "string \<Rightarrow> string" where
  "strip s = rev (dropWhile py_isspace (rev (dropWhile py_isspace s)))"

text \<open>\<^verbatim>\<open>str.lower()\<close> and \<^verbatim>\<open>str.upper()\<close>, character by character.  The capital letters up to
  U+00FF are A to Z and 0xC0 to 0xDE without the multiplication sign 0xD7; each has its
  small letter 32 places on.  Three small letters (0xB5, 0xDF and 0xFF) have a capital
  form that is not a single code point up to U+00FF; \<open>upper_char\<close> leaves them as they are.
  The editor calls \<^verbatim>\<open>upper()\<close> on the extension of a dropped file only, which is made of the
  letters A to Z in either case whenever the file is accepted (\<open>image_extension\<close> below).\<close>

definition lower_char :: "char \<Rightarrow> char" where
  "lower_char c =
     (let n = (of_char c :: nat)
      in if (65 \<le> n \<and> n \<le> 90) \<or> (192 \<le> n \<and> n \<le> 222 \<and> n \<noteq> 215) then char_of (n + 32)
         else c)"

definition upper_char :: "char \<Rightarrow> char" where
  "upper_char c =
     (let n = (of_char c :: nat)
      in if (97 \<le> n \<and> n \<le> 122) \<or> (224 \<le> n \<and> n \<le> 254 \<and> n \<noteq> 247) then char_of (n - 32)
         else c)"

definition lower :: "string \<Rightarrow> string" where
  "lower s = map lower_char s"

definition upper :: "string \<Rightarrow> string" where
  "upper s = map upper_char s"

definition endswith :: "string \<Rightarrow> string \<Rightarrow> bool" where
  "endswith s suf = (length suf \<le> length s \<and> drop (length s - length suf) s = suf)"

text \<open>\<^verbatim>\<open>s.split(sep)\<close> for a one-character separator: never an empty list.\<close>

fun split :: "char \<Rightarrow> string \<Rightarrow> string list" where
  "split sep [] = [[]]"
| "split sep (c # cs) =
     (if c = sep then [] # split sep cs
      else (case split sep cs of [] \<Rightarrow> [[c]] | p # ps \<Rightarrow> (c # p) # ps))"

text \<open>\<^verbatim>\<open>int(s)\<close>: surrounding whitespace is skipped, one sign is allowed, then decimal
  digits, where single underscores may stand between digits.  \<open>None\<close> stands for
  \<^verbatim>\<open>ValueError\<close>.  The whitespace of \<^verbatim>\<open>int\<close> is not that of \<^verbatim>\<open>strip()\<close>: it is C's (tab to
  carriage return, and the space) and, of the characters from U+0080 on, the two that
  Python turns into a space before parsing (0x85 and 0xA0); the separators 0x1C..0x1F are
  refused.  Up to U+00FF the only decimal digits are 0 to 9.

  Since CPython 3.11 (and the security releases of 3.7 to 3.10) a text with more digits
  than \<^verbatim>\<open>sys.get_int_max_str_digits()\<close> is refused as well; the interpreter's setting is the
  argument \<open>max_str_digits\<close>: 4300 unless changed, and 0 for no limit, which is also how
  an interpreter without the setting behaves.  The check is made for more than 640 digits
  only, the least limit that can be set.\<close>

definition int_isspace :: "char \<Rightarrow> bool" where
  "int_isspace c =
     (let n = (of_char c :: nat) in (9 \<le> n \<and> n \<le> 13) \<or> n = 32 \<or> n = 133 \<or> n = 160)"

definition is_digit :: "char \<Rightarrow> bool" where
  "is_digit c = (let n = (of_char c :: nat) in 48 \<le> n \<and> n \<le> 57)"

definition digit_val :: "char \<Rightarrow> int" where
  "digit_val c = int (of_char c) - 48"

fun int_digits :: "string \<Rightarrow> int \<Rightarrow> int option" where
  "int_digits [] acc = Some acc"
| "int_digits [c] acc = (if is_digit c then Some (acc * 10 + digit_val c) else None)"
| "int_digits (c # d # ds) acc =
     (if is_digit c then int_digits (d # ds) (acc * 10 + digit_val c)
      else if c = CHR ''_'' \<and> is_digit d then int_digits ds (acc * 10 + digit_val d)
      else None)"

definition unsigned_int :: "string \<Rightarrow> int option" where
  "unsigned_int s =
     (case s of [] \<Rightarrow> None
      | d # ds \<Rightarrow> if is_digit d then int_digits ds (digit_val d) else None)"

definition signed_int :: "string \<Rightarrow> int option" where
  "signed_int s =
     (case s of [] \<Rightarrow> None
      | c # cs \<Rightarrow>
          if c = CHR ''-'' then map_option uminus (unsigned_int cs)
          else if c = CHR ''+'' then unsigned_int cs
          else unsigned_int (c # cs))"

definition too_many_digits :: "nat \<Rightarrow> string \<Rightarrow> bool" where
  "too_many_digits max_str_digits s =
     (let digits = length (filter is_digit s)
      in 640 < digits \<and> 0 < max_str_digits \<and> max_str_digits < digits)"

definition py_int :: "nat \<Rightarrow> string \<Rightarrow> int option" where
  "py_int max_str_digits s =
     (let body = rev (dropWhile int_isspace (rev (dropWhile int_isspace s)))
      in if too_many_digits max_str_digits body then None else signed_int body)"

subsection \<open>Integers handed to Qt\<close>

text \<open>PyQt converts a Python integer passed for a C++ \<^verbatim>\<open>int\<close> parameter and raises
  \<^verbatim>\<open>OverflowError\<close> when it does not fit 32 bits.  Three such calls sit inside a \<^verbatim>\<open>try\<close>
  block of the editor with integers that come from a file or a dialog:
  \<^verbatim>\<open>QListWidget.setCurrentRow\<close>, \<^verbatim>\<open>QWidget.setFixedSize\<close> and the constructor \<^verbatim>\<open>QColor(r, g, b, a)\<close>
  (below).  A row that is not in the list, or a negative size, is an integer Qt takes
  without an exception.  The two functions give the exception raised, if any.\<close>

definition c_int :: "int \<Rightarrow> bool" where
  "c_int v = (- 2147483648 \<le> v \<and> v \<le> 2147483647)"

definition setCurrentRow :: "int \<Rightarrow> py_error option" where
  "setCurrentRow row = (if c_int row then None else Some OverflowError)"

definition setFixedSize :: "int \<Rightarrow> int \<Rightarrow> py_error option" where
  "setFixedSize w h = (if c_int w \<and> c_int h then None else Some OverflowError)"

section \<open>Data classes\<close>

text \<open>The model keeps of a \<^verbatim>\<open>QColor\<close> what \<^verbatim>\<open>red()\<close>, \<^verbatim>\<open>green()\<close>, \<^verbatim>\<open>blue()\<close> and \<^verbatim>\<open>alpha()\<close> read,
  each an integer from 0 to 255: these four channels are what \<^verbatim>\<open>save_project\<close> writes of a
  colour, and two colours with the same channels are the same colour of the model.
  \<^verbatim>\<open>QColor(r, g, b, a)\<close> with an argument outside that range gives an invalid colour, whose
  four channels read 0 (Qt 5.15).  \<open>QColor\<close> is the constructor on arguments that fit a C
  \<^verbatim>\<open>int\<close>; \<open>QColor_args\<close> is the call from Python, which raises for one that does not.\<close>

datatype qcolor = Rgba (red: "8 word") (green: "8 word") (blue: "8 word") (alpha: "8 word")

definition channel_ok :: "int \<Rightarrow> bool" where
  "channel_ok v = (0 \<le> v \<and> v \<le> 255)"

definition QColor :: "int \<Rightarrow> int \<Rightarrow> int \<Rightarrow> int \<Rightarrow> qcolor" where
  "QColor r g b a =
     (if channel_ok r \<and> channel_ok g \<and> channel_ok b \<and> channel_ok a
      then Rgba (word_of_int r) (word_of_int g) (word_of_int b) (word_of_int a)
      else Rgba 0 0 0 0)"

definition QColor_args :: "int \<Rightarrow> int \<Rightarrow> int \<Rightarrow> int \<Rightarrow> py_error + qcolor" where
  "QColor_args r g b a =
     (if c_int r \<and> c_int g \<and> c_int b \<and> c_int a then Inr (QColor r g b a)
      else Inl OverflowError)"

text \<open>Class \<^verbatim>\<open>Sprite\<close>.  The private attributes \<^verbatim>\<open>_is_gif\<close>, \<^verbatim>\<open>_movie\<close> and \<^verbatim>\<open>_pixmap\<close> hold the
  decoded image; they are computed from the three public attributes and never saved.\<close>

record sprite =
  sprite_name :: string
  sprite_img_bytes :: "bytes option"
  sprite_img_format :: string

definition Sprite :: "string \<Rightarrow> bytes option \<Rightarrow> string \<Rightarrow> sprite" where
  "Sprite name img_bytes img_format =
     \<lparr>sprite_name = name, sprite_img_bytes = img_bytes, sprite_img_format = img_format\<rparr>"

text \<open>Class \<^verbatim>\<open>BackgroundResource\<close>; the constructor replaces a missing colour
  (\<^verbatim>\<open>color or QColor(200,200,255)\<close>).\<close>

record background_resource =
  bg_name :: string
  mode :: string
  color :: qcolor
  bg_img_bytes :: "bytes option"
  bg_img_format :: string
  tiled :: bool

definition BackgroundResource ::
  "string \<Rightarrow> string \<Rightarrow> qcolor option \<Rightarrow> bytes option \<Rightarrow> string \<Rightarrow> bool \<Rightarrow> background_resource" where
  "BackgroundResource name md col img_bytes img_format til =
     \<lparr>bg_name = name, mode = md,
      color = (case col of None \<Rightarrow> QColor 200 200 255 255 | Some c \<Rightarrow> c),
      bg_img_bytes = img_bytes, bg_img_format = img_format, tiled = til\<rparr>"

text \<open>Classes \<^verbatim>\<open>GameObjectType\<close>, \<^verbatim>\<open>GameObjectInstance\<close> and \<^verbatim>\<open>Level\<close>.\<close>

record game_object_type =
  obj_name :: string
  sprite_index :: "int option"

record game_object_instance =
  inst_x :: int
  inst_y :: int
  object_index :: int

record level =
  level_name :: string
  width :: int
  height :: int
  background_index :: "int option"
  instances :: "game_object_instance list"

definition Level :: "string \<Rightarrow> int \<Rightarrow> int \<Rightarrow> int option \<Rightarrow> level" where
  "Level name w h bg =
     \<lparr>level_name = name, width = w, height = h, background_index = bg, instances = []\<rparr>"

text \<open>The project state of \<^verbatim>\<open>GameMakerIDE\<close>, with the canvas's \<^verbatim>\<open>grid_size\<close>.\<close>

record ide =
  sprites :: "sprite list"
  objects :: "game_object_type list"
  levels :: "level list"
  backgrounds :: "background_resource list"
  selected_sprite_index :: "int option"
  selected_object_index :: "int option"
  selected_level_index :: "int option"
  selected_background_index :: "int option"
  grid_size :: int

section \<open>Resource collections\<close>

subsection \<open>Backgrounds\<close>

text \<open>What \<^verbatim>\<open>BackgroundEditDialog.get_values()\<close> returns; \<open>None\<close> below stands for a dialog
  that was cancelled.\<close>

type_synonym background_values = "string \<times> string \<times> qcolor \<times> bytes option \<times> string \<times> bool"

definition add_background :: "ide \<Rightarrow> bool \<Rightarrow> background_values option \<Rightarrow> ide" where
  "add_background st init dlg =
     (let vals = (if \<not> init then dlg
                  else Some (''Background 1'', ''color'', QColor 200 200 255 255, None, ''PNG'', True))
      in case vals of
           None \<Rightarrow> st
         | Some (name, md, col, img_bytes, img_format, til) \<Rightarrow>
             st\<lparr>backgrounds :=
                  backgrounds st @ [BackgroundResource name md (Some col) img_bytes img_format til]\<rparr>)"

text \<open>A dropped URL: \<^verbatim>\<open>isLocalFile()\<close>, \<^verbatim>\<open>toLocalFile()\<close>, and the bytes read from that file
  (\<open>None\<close> when opening or reading it raises).  The handlers take the first URL that is a
  local image file and stop.\<close>

type_synonym dropped_url = "bool \<times> string \<times> bytes option"

definition is_image_file :: "dropped_url \<Rightarrow> bool" where
  "is_image_file u =
     (case u of (is_local, path, content) \<Rightarrow>
        is_local \<and>
        (endswith (lower path) ''.png'' \<or> endswith (lower path) ''.jpg'' \<or>
         endswith (lower path) ''.jpeg'' \<or> endswith (lower path) ''.bmp'' \<or>
         endswith (lower path) ''.gif''))"

definition bg_dropEvent :: "ide \<Rightarrow> dropped_url list \<Rightarrow> py_error + ide" where
  "bg_dropEvent st urls =
     (case find is_image_file urls of
        None \<Rightarrow> Inr st
      | Some (is_local, file_name, content) \<Rightarrow>
          (let img_format = upper (last (split CHR ''.'' file_name)) in
           case content of
             None \<Rightarrow> Inl OSError
           | Some img_bytes \<Rightarrow>
               Inr (st\<lparr>backgrounds :=
                      backgrounds st @
                      [BackgroundResource (last (split CHR ''/'' file_name)) ''image'' None
                         (Some img_bytes) img_format True]\<rparr>)))"

text \<open>\<^verbatim>\<open>QInputDialog.getText\<close> returns the text and whether OK was pressed.\<close>

definition rename_background :: "ide \<Rightarrow> string \<Rightarrow> bool \<Rightarrow> ide" where
  "rename_background st name ok =
     (case selected_background_index st of
        None \<Rightarrow> st
      | Some idx \<Rightarrow>
          if 0 \<le> idx \<and> idx < int (length (backgrounds st)) then
            (if ok \<and> strip name \<noteq> [] then
               st\<lparr>backgrounds :=
                    (backgrounds st)[nat idx := (backgrounds st ! nat idx)\<lparr>bg_name := name\<rparr>]\<rparr>
             else st)
          else st)"

text \<open>The fix-up that \<^verbatim>\<open>delete_background\<close> applies to every level.\<close>

definition unlink_background :: "int \<Rightarrow> level \<Rightarrow> level" where
  "unlink_background idx lvl =
     (if background_index lvl = Some idx then lvl\<lparr>background_index := None\<rparr>
      else (case background_index lvl of
              None \<Rightarrow> lvl
            | Some b \<Rightarrow> if b > idx then lvl\<lparr>background_index := Some (b - 1)\<rparr> else lvl))"

text \<open>\<open>confirm\<close> is whether the message box was answered with Yes.\<close>

definition delete_background :: "ide \<Rightarrow> bool \<Rightarrow> ide" where
  "delete_background st confirm =
     (case selected_background_index st of
        None \<Rightarrow> st
      | Some idx \<Rightarrow>
          if 0 \<le> idx \<and> idx < int (length (backgrounds st)) then
            (if confirm then
               st\<lparr>levels := map (unlink_background idx) (levels st),
                  backgrounds := delete_at (backgrounds st) (nat idx),
                  selected_background_index := None\<rparr>
             else st)
          else st)"

definition on_background_selected :: "ide \<Rightarrow> int \<Rightarrow> ide" where
  "on_background_selected st row = st\<lparr>selected_background_index := Some row\<rparr>"

subsection \<open>Sprites\<close>

type_synonym sprite_values = "string \<times> bytes option \<times> string"

definition add_sprite :: "ide \<Rightarrow> bool \<Rightarrow> sprite_values option \<Rightarrow> ide" where
  "add_sprite st init dlg =
     (let vals = (if \<not> init then dlg else Some (''Sprite 1'', None, ''PNG''))
      in case vals of
           None \<Rightarrow> st
         | Some (name, img_bytes, img_format) \<Rightarrow>
             st\<lparr>sprites := sprites st @ [Sprite name img_bytes img_format]\<rparr>)"

definition sprite_dropEvent :: "ide \<Rightarrow> dropped_url list \<Rightarrow> py_error + ide" where
  "sprite_dropEvent st urls =
     (case find is_image_file urls of
        None \<Rightarrow> Inr st
      | Some (is_local, file_name, content) \<Rightarrow>
          (let img_format = upper (last (split CHR ''.'' file_name)) in
           case content of
             None \<Rightarrow> Inl OSError
           | Some img_bytes \<Rightarrow>
               Inr (st\<lparr>sprites :=
                      sprites st @
                      [Sprite (last (split CHR ''/'' file_name)) (Some img_bytes) img_format]\<rparr>)))"

definition rename_sprite :: "ide \<Rightarrow> string \<Rightarrow> bool \<Rightarrow> ide" where
  "rename_sprite st name ok =
     (case selected_sprite_index st of
        None \<Rightarrow> st
      | Some idx \<Rightarrow>
          if 0 \<le> idx \<and> idx < int (length (sprites st)) then
            (if ok \<and> strip name \<noteq> [] then
               st\<lparr>sprites := (sprites st)[nat idx := (sprites st ! nat idx)\<lparr>sprite_name := name\<rparr>]\<rparr>
             else st)
          else st)"

text \<open>The fix-up that \<^verbatim>\<open>delete_sprite\<close> applies to every object type.\<close>

definition unlink_sprite :: "int \<Rightarrow> game_object_type \<Rightarrow> game_object_type" where
  "unlink_sprite idx obj =
     (if sprite_index obj = Some idx then obj\<lparr>sprite_index := None\<rparr>
      else (case sprite_index obj of
              None \<Rightarrow> obj
            | Some s \<Rightarrow> if s > idx then obj\<lparr>sprite_index := Some (s - 1)\<rparr> else obj))"

definition delete_sprite :: "ide \<Rightarrow> bool \<Rightarrow> ide" where
  "delete_sprite st confirm =
     (case selected_sprite_index st of
        None \<Rightarrow> st
      | Some idx \<Rightarrow>
          if 0 \<le> idx \<and> idx < int (length (sprites st)) then
            (if confirm then
               st\<lparr>objects := map (unlink_sprite idx) (objects st),
                  sprites := delete_at (sprites st) (nat idx),
                  selected_sprite_index := None\<rparr>
             else st)
          else st)"

definition on_sprite_selected :: "ide \<Rightarrow> int \<Rightarrow> ide" where
  "on_sprite_selected st row = st\<lparr>selected_sprite_index := Some row\<rparr>"

subsection \<open>Object types\<close>

definition add_object :: "ide \<Rightarrow> bool \<Rightarrow> string \<Rightarrow> bool \<Rightarrow> ide" where
  "add_object st init text ok =
     (if \<not> init \<and> (\<not> ok \<or> strip text = []) then st
      else
        (let name = (if init then ''Object 1'' else text);
             objs = objects st @ [\<lparr>obj_name = name, sprite_index = None\<rparr>]
         in st\<lparr>objects := objs, selected_object_index := Some (int (length objs) - 1)\<rparr>))"

definition rename_object :: "ide \<Rightarrow> string \<Rightarrow> bool \<Rightarrow> ide" where
  "rename_object st name ok =
     (case selected_object_index st of
        None \<Rightarrow> st
      | Some idx \<Rightarrow>
          if 0 \<le> idx \<and> idx < int (length (objects st)) then
            (if ok \<and> strip name \<noteq> [] then
               st\<lparr>objects := (objects st)[nat idx := (objects st ! nat idx)\<lparr>obj_name := name\<rparr>]\<rparr>
             else st)
          else st)"

text \<open>What \<^verbatim>\<open>delete_object\<close> does to one level: the instances of the deleted type are
  filtered out, then every remaining instance with a larger index is decremented.  Every
  instance object is created by one \<^verbatim>\<open>GameObjectInstance(...)\<close> call and held by one list
  only, so the in-place decrement touches each instance once.\<close>

definition shift_object_ref :: "int \<Rightarrow> game_object_instance \<Rightarrow> game_object_instance" where
  "shift_object_ref idx inst =
     (if object_index inst > idx then inst\<lparr>object_index := object_index inst - 1\<rparr> else inst)"

definition drop_object_instances :: "int \<Rightarrow> level \<Rightarrow> level" where
  "drop_object_instances idx lvl =
     lvl\<lparr>instances :=
          map (shift_object_ref idx) (filter (\<lambda>inst. object_index inst \<noteq> idx) (instances lvl))\<rparr>"

definition delete_object :: "ide \<Rightarrow> bool \<Rightarrow> ide" where
  "delete_object st confirm =
     (case selected_object_index st of
        None \<Rightarrow> st
      | Some idx \<Rightarrow>
          if 0 \<le> idx \<and> idx < int (length (objects st)) then
            (if confirm then
               st\<lparr>levels := map (drop_object_instances idx) (levels st),
                  objects := delete_at (objects st) (nat idx),
                  selected_object_index := None\<rparr>
             else st)
          else st)"

definition on_object_selected :: "ide \<Rightarrow> int \<Rightarrow> ide" where
  "on_object_selected st row = st\<lparr>selected_object_index := Some row\<rparr>"

subsection \<open>Levels\<close>

definition add_level :: "ide \<Rightarrow> bool \<Rightarrow> string \<Rightarrow> bool \<Rightarrow> ide" where
  "add_level st init text ok =
     (if \<not> init \<and> (\<not> ok \<or> strip text = []) then st
      else
        (let lvl = (if init then Level ''Level 1'' 640 360 (Some 0)
                    else Level text 640 360 (if backgrounds st \<noteq> [] then Some 0 else None));
             lvls = levels st @ [lvl]
         in st\<lparr>levels := lvls, selected_level_index := Some (int (length lvls) - 1)\<rparr>))"

definition rename_level :: "ide \<Rightarrow> string \<Rightarrow> bool \<Rightarrow> ide" where
  "rename_level st name ok =
     (case selected_level_index st of
        None \<Rightarrow> st
      | Some idx \<Rightarrow>
          if 0 \<le> idx \<and> idx < int (length (levels st)) then
            (if ok \<and> strip name \<noteq> [] then
               st\<lparr>levels := (levels st)[nat idx := (levels st ! nat idx)\<lparr>level_name := name\<rparr>]\<rparr>
             else st)
          else st)"

definition delete_level :: "ide \<Rightarrow> bool \<Rightarrow> ide" where
  "delete_level st confirm =
     (case selected_level_index st of
        None \<Rightarrow> st
      | Some idx \<Rightarrow>
          if 0 \<le> idx \<and> idx < int (length (levels st)) then
            (if confirm then
               (let lvls = delete_at (levels st) (nat idx)
                in st\<lparr>levels := lvls,
                      selected_level_index :=
                        (if lvls \<noteq> [] then Some (min idx (int (length lvls) - 1)) else None)\<rparr>)
             else st)
          else st)"

definition on_level_selected :: "ide \<Rightarrow> int \<Rightarrow> ide" where
  "on_level_selected st row = st\<lparr>selected_level_index := Some row\<rparr>"

text \<open>\<^verbatim>\<open>get_current_level\<close> returns the selected level object; the model returns its position,
  so that a handler can write the changed level back.\<close>

definition get_current_level :: "ide \<Rightarrow> nat option" where
  "get_current_level st =
     (case selected_level_index st of
        None \<Rightarrow> None
      | Some i \<Rightarrow> if 0 \<le> i \<and> i < int (length (levels st)) then Some (nat i) else None)"

text \<open>\<^verbatim>\<open>refresh_canvas\<close> calls \<^verbatim>\<open>GameCanvas.refresh\<close>, which schedules a repaint and gives the
  canvas the size of the current level, 640 by 360 when there is none.  It changes
  nothing of the project state; the function gives the exception raised, if any.  The
  resize handler and \<^verbatim>\<open>open_project\<close> call it inside their \<^verbatim>\<open>try\<close> block.  Every other handler
  calls it as its last statement, after all its changes to the state, which are what the
  handler's model returns.\<close>

definition refresh_canvas :: "ide \<Rightarrow> py_error option" where
  "refresh_canvas st =
     (case get_current_level st of
        Some k \<Rightarrow> setFixedSize (width (levels st ! k)) (height (levels st ! k))
      | None \<Rightarrow> setFixedSize 640 360)"

text \<open>\<^verbatim>\<open>w, h = map(int, text.split(","))\<close>: exactly two parts, each accepted by \<^verbatim>\<open>int\<close>;
  anything else raises before either attribute is assigned.\<close>

definition parse_size :: "nat \<Rightarrow> string \<Rightarrow> (int \<times> int) option" where
  "parse_size max_str_digits text =
     (case map (py_int max_str_digits) (split CHR '','' text) of
        [Some w, Some h] \<Rightarrow> Some (w, h)
      | _ \<Rightarrow> None)"

datatype notice = Warning string | Information string

text \<open>\<open>dlg\<close> is the text of the resize dialog, \<open>None\<close> when it was cancelled.  The two
  assignments and the call of \<^verbatim>\<open>refresh_canvas\<close> are in the same \<^verbatim>\<open>try\<close> block as the parsing:
  when the canvas refuses the new size, the level keeps it and the warning is shown.\<close>

definition set_level_screen_size ::
  "nat \<Rightarrow> ide \<Rightarrow> string option \<Rightarrow> ide \<times> notice option" where
  "set_level_screen_size max_str_digits st dlg =
     (case get_current_level st of
        None \<Rightarrow> (st, None)
      | Some k \<Rightarrow>
          (case dlg of
             None \<Rightarrow> (st, None)
           | Some text \<Rightarrow>
               (case parse_size max_str_digits text of
                  None \<Rightarrow> (st, Some (Warning ''Invalid format.''))
                | Some (w, h) \<Rightarrow>
                    (let st' = st\<lparr>levels :=
                                    (levels st)[k := (levels st ! k)\<lparr>width := w, height := h\<rparr>]\<rparr>
                     in case refresh_canvas st' of
                          Some e \<Rightarrow> (st', Some (Warning ''Invalid format.''))
                        | None \<Rightarrow> (st', None)))))"

section \<open>The canvas\<close>

text \<open>\<^verbatim>\<open>Sprite.pixmap()\<close> returns the decoded image when the sprite has bytes and a blank
  40 by 40 pixmap otherwise.  Decoding is Qt's; \<open>decoded\<close> gives the width and height of
  what Qt produced for a sprite that has bytes.\<close>

definition pixmap_size :: "(sprite \<Rightarrow> int \<times> int) \<Rightarrow> sprite \<Rightarrow> int \<times> int" where
  "pixmap_size decoded spr =
     (case sprite_img_bytes spr of
        None \<Rightarrow> (40, 40)
      | Some b \<Rightarrow> if b = [] then (40, 40) else decoded spr)"

definition contains_point ::
  "(sprite \<Rightarrow> int \<times> int) \<Rightarrow> game_object_instance \<Rightarrow> int \<Rightarrow> int \<Rightarrow>
   game_object_type list \<Rightarrow> sprite list \<Rightarrow> py_error + bool" where
  "contains_point decoded inst px py objs sprs =
     (case py_getitem objs (object_index inst) of
        Inl e \<Rightarrow> Inl e
      | Inr obj \<Rightarrow>
          (case sprite_index obj of
             None \<Rightarrow> Inr False
           | Some si \<Rightarrow>
               if si \<ge> int (length sprs) then Inr False
               else
                 (case py_getitem sprs si of
                    Inl e \<Rightarrow> Inl e
                  | Inr spr \<Rightarrow>
                      (case pixmap_size decoded spr of
                         (w, h) \<Rightarrow>
                           Inr ((inst_x inst \<le> px \<and> px \<le> inst_x inst + w) \<and>
                                (inst_y inst \<le> py \<and> py \<le> inst_y inst + h))))))"

text \<open>The loop \<^verbatim>\<open>for i in reversed(range(len(level.instances)))\<close> of \<^verbatim>\<open>mousePressEvent\<close>, up to
  the first instance that contains the point: \<open>hit_scan \<dots> n\<close> looks at the positions
  \<open>n - 1\<close> down to \<open>0\<close>.\<close>

fun hit_scan ::
  "(sprite \<Rightarrow> int \<times> int) \<Rightarrow> int \<Rightarrow> int \<Rightarrow> game_object_type list \<Rightarrow> sprite list \<Rightarrow>
   game_object_instance list \<Rightarrow> nat \<Rightarrow> py_error + nat option" where
  "hit_scan decoded px py objs sprs insts 0 = Inr None"
| "hit_scan decoded px py objs sprs insts (Suc i) =
     (case contains_point decoded (insts ! i) px py objs sprs of
        Inl e \<Rightarrow> Inl e
      | Inr True \<Rightarrow> Inr (Some i)
      | Inr False \<Rightarrow> hit_scan decoded px py objs sprs insts i)"

datatype mouse_button = LeftButton | RightButton | OtherButton

definition set_instances :: "ide \<Rightarrow> nat \<Rightarrow> game_object_instance list \<Rightarrow> ide" where
  "set_instances st k insts = st\<lparr>levels := (levels st)[k := (levels st ! k)\<lparr>instances := insts\<rparr>]\<rparr>"

text \<open>\<^verbatim>\<open>GameCanvas.mousePressEvent\<close> on the project state.  A left click on an instance moves
  it to the end of the list (\<^verbatim>\<open>append(pop(i))\<close>), a left click on free ground places an
  instance of the selected object type on the grid, a right click deletes the instance
  hit.  An exception raised by \<^verbatim>\<open>contains_point\<close> leaves the handler before anything is
  changed.\<close>

definition mousePressEvent ::
  "(sprite \<Rightarrow> int \<times> int) \<Rightarrow> ide \<Rightarrow> mouse_button \<Rightarrow> int \<Rightarrow> int \<Rightarrow> py_error + ide" where
  "mousePressEvent decoded st button ex ey =
     (case get_current_level st of
        None \<Rightarrow> Inr st
      | Some k \<Rightarrow>
          (let insts = instances (levels st ! k) in
           case button of
             LeftButton \<Rightarrow>
               (case hit_scan decoded ex ey (objects st) (sprites st) insts (length insts) of
                  Inl e \<Rightarrow> Inl e
                | Inr (Some i) \<Rightarrow> Inr (set_instances st k (delete_at insts i @ [insts ! i]))
                | Inr None \<Rightarrow>
                    (case selected_object_index st of
                       None \<Rightarrow> Inr st
                     | Some sel \<Rightarrow>
                         (let snap_x = (ex div grid_size st) * grid_size st;
                              snap_y = (ey div grid_size st) * grid_size st
                          in Inr (set_instances st k
                                   (insts @ [\<lparr>inst_x = snap_x, inst_y = snap_y, object_index = sel\<rparr>])))))
           | RightButton \<Rightarrow>
               (case hit_scan decoded ex ey (objects st) (sprites st) insts (length insts) of
                  Inl e \<Rightarrow> Inl e
                | Inr (Some i) \<Rightarrow> Inr (set_instances st k (delete_at insts i))
                | Inr None \<Rightarrow> Inr st)
           | OtherButton \<Rightarrow> Inr st))"

text \<open>Whether \<^verbatim>\<open>paintEvent\<close> gets as far as fetching a pixmap for an instance: the object
  index must not be past the end, and the sprite index must be set and satisfy
  \<^verbatim>\<open>0 <= obj.sprite_index < len(sprites)\<close>.\<close>

definition paint_finds_sprite ::
  "game_object_instance \<Rightarrow> game_object_type list \<Rightarrow> sprite list \<Rightarrow> py_error + bool" where
  "paint_finds_sprite inst objs sprs =
     (if object_index inst \<ge> int (length objs) then Inr False
      else
        (case py_getitem objs (object_index inst) of
           Inl e \<Rightarrow> Inl e
         | Inr obj \<Rightarrow>
             (case sprite_index obj of
                None \<Rightarrow> Inr False
              | Some si \<Rightarrow> Inr (0 \<le> si \<and> si < int (length sprs)))))"

section \<open>User actions\<close>

text \<open>The buttons and list widgets of the main window are connected to the handlers above
  (a button's \<^verbatim>\<open>clicked\<close> signal passes \<^verbatim>\<open>False\<close> for \<^verbatim>\<open>init\<close>).  An action carries what the
  user entered in the dialog the handler opens.  An exception in a drop handler is
  raised before the state is touched and ends the handler.\<close>

datatype action =
    AddBackground "background_values option"
  | DropBackground "dropped_url list"
  | RenameBackground string bool
  | DeleteBackground bool
  | SelectBackground int
  | AddSprite "sprite_values option"
  | DropSprite "dropped_url list"
  | RenameSprite string bool
  | DeleteSprite bool
  | SelectSprite int
  | AddObject string bool
  | RenameObject string bool
  | DeleteObject bool
  | SelectObject int
  | AddLevel string bool
  | RenameLevel string bool
  | DeleteLevel bool
  | SelectLevel int

fun perform :: "ide \<Rightarrow> action \<Rightarrow> ide" where
  "perform st (AddBackground dlg) = add_background st False dlg"
| "perform st (DropBackground urls) =
     (case bg_dropEvent st urls of Inl e \<Rightarrow> st | Inr st' \<Rightarrow> st')"
| "perform st (RenameBackground name ok) = rename_background st name ok"
| "perform st (DeleteBackground confirm) = delete_background st confirm"
| "perform st (SelectBackground row) = on_background_selected st row"
| "perform st (AddSprite dlg) = add_sprite st False dlg"
| "perform st (DropSprite urls) =
     (case sprite_dropEvent st urls of Inl e \<Rightarrow> st | Inr st' \<Rightarrow> st')"
| "perform st (RenameSprite name ok) = rename_sprite st name ok"
| "perform st (DeleteSprite confirm) = delete_sprite st confirm"
| "perform st (SelectSprite row) = on_sprite_selected st row"
| "perform st (AddObject name ok) = add_object st False name ok"
| "perform st (RenameObject name ok) = rename_object st name ok"
| "perform st (DeleteObject confirm) = delete_object st confirm"
| "perform st (SelectObject row) = on_object_selected st row"
| "perform st (AddLevel name ok) = add_level st False name ok"
| "perform st (RenameLevel name ok) = rename_level st name ok"
| "perform st (DeleteLevel confirm) = delete_level st confirm"
| "perform st (SelectLevel row) = on_level_selected st row"

text \<open>The state after each action of a sequence, in order.\<close>

fun run :: "ide \<Rightarrow> action list \<Rightarrow> ide list" where
  "run st [] = []"
| "run st (a # as) = perform st a # run (perform st a) as"

text \<open>Referential integrity: every sprite index of an object type and every background
  index of a level is \<^verbatim>\<open>None\<close> or a position of its collection, and every object index of
  a placed instance is a position of the object types.\<close>

definition ref_ok :: "int option \<Rightarrow> nat \<Rightarrow> bool" where
  "ref_ok r n = (case r of None \<Rightarrow> True | Some i \<Rightarrow> 0 \<le> i \<and> i < int n)"

definition instance_ok :: "nat \<Rightarrow> game_object_instance \<Rightarrow> bool" where
  "instance_ok n inst = (0 \<le> object_index inst \<and> object_index inst < int n)"

definition level_ok :: "nat \<Rightarrow> nat \<Rightarrow> level \<Rightarrow> bool" where
  "level_ok n_backgrounds n_objects lvl =
     (ref_ok (background_index lvl) n_backgrounds \<and>
      list_all (instance_ok n_objects) (instances lvl))"

definition object_ok :: "nat \<Rightarrow> game_object_type \<Rightarrow> bool" where
  "object_ok n_sprites obj = ref_ok (sprite_index obj) n_sprites"

definition integrity :: "ide \<Rightarrow> bool" where
  "integrity st =
     (list_all (object_ok (length (sprites st))) (objects st) \<and>
      list_all (level_ok (length (backgrounds st)) (length (objects st))) (levels st))"

section \<open>Saving and opening a project\<close>

text \<open>
  \<^verbatim>\<open>save_project\<close> builds a dictionary and writes it with \<^verbatim>\<open>json.dump\<close>; \<^verbatim>\<open>open_project\<close>
  reads one with \<^verbatim>\<open>json.load\<close>.  The records below are that dictionary: one field per
  key, with the type the file format gives the key's value.  A key that may be missing
  from a file is an \<open>option\<close>, and \<open>None\<close> is the missing key.  For the keys the code reads
  with \<^verbatim>\<open>.get(key)\<close> and no default (\<^verbatim>\<open>img_bytes\<close>, \<^verbatim>\<open>color\<close>, \<^verbatim>\<open>background_index\<close> and the three
  selection indices) \<open>None\<close> is the value \<^verbatim>\<open>null\<close> as well, which \<^verbatim>\<open>.get\<close> does not tell apart.
  \<^verbatim>\<open>sprite_index\<close> is read with \<^verbatim>\<open>obj_info["sprite_index"]\<close>, so there the missing key
  (\<open>None\<close>) and \<^verbatim>\<open>null\<close> (\<open>Some None\<close>) differ.  The same holds for a sprite's \<^verbatim>\<open>img_format\<close>,
  read with \<^verbatim>\<open>d.get("img_format", "PNG")\<close>: the default stands in for a missing key only, and
  \<^verbatim>\<open>null\<close> reaches the constructor, which raises on it.  Any other \<^verbatim>\<open>null\<close>, and any value of
  another JSON type than the field's, is not a value of these records.  JSON text and the
  file system are json's and the operating system's; a file that cannot be opened or read
  as JSON is \<open>BadFile\<close>.

  Base64 is Python's \<^verbatim>\<open>base64\<close> module.  The functions that use it take \<open>enc\<close> for
  \<^verbatim>\<open>base64.b64encode(b).decode("utf-8")\<close> and \<open>dec\<close> for \<^verbatim>\<open>base64.b64decode(s)\<close>, \<open>None\<close> when
  it raises.
\<close>

record background_info =
  bi_name :: "string option"
  bi_mode :: "string option"
  bi_color :: "(int \<times> int \<times> int \<times> int) option"
  bi_img_bytes :: "string option"
  bi_img_format :: "string option"
  bi_tiled :: "bool option"

record sprite_info =
  si_name :: "string option"
  si_img_bytes :: "string option"
  si_img_format :: "string option option"

record object_info =
  oi_name :: "string option"
  oi_sprite_index :: "int option option"

record instance_info =
  ii_x :: "int option"
  ii_y :: "int option"
  ii_object_index :: "int option"

record level_info =
  li_name :: "string option"
  li_width :: "int option"
  li_height :: "int option"
  li_background_index :: "int option"
  li_instances :: "instance_info list option"

record project_file =
  pf_backgrounds :: "background_info list option"
  pf_sprites :: "sprite_info list option"
  pf_objects :: "object_info list option"
  pf_levels :: "level_info list option"
  pf_selected_level_index :: "int option"
  pf_selected_object_index :: "int option"
  pf_selected_background_index :: "int option"

subsection \<open>Writing\<close>

text \<open>\<^verbatim>\<open>base64.b64encode(self.img_bytes).decode("utf-8") if self.img_bytes else None\<close>: empty
  bytes are false in Python.\<close>

definition encode_img_bytes :: "(bytes \<Rightarrow> string) \<Rightarrow> bytes option \<Rightarrow> string option" where
  "encode_img_bytes enc img_bytes =
     (case img_bytes of
        None \<Rightarrow> None
      | Some b \<Rightarrow> if b = [] then None else Some (enc b))"

definition sprite_to_dict :: "(bytes \<Rightarrow> string) \<Rightarrow> sprite \<Rightarrow> sprite_info" where
  "sprite_to_dict enc spr =
     \<lparr>si_name = Some (sprite_name spr),
      si_img_bytes = encode_img_bytes enc (sprite_img_bytes spr),
      si_img_format = Some (Some (sprite_img_format spr))\<rparr>"

definition background_to_dict :: "(bytes \<Rightarrow> string) \<Rightarrow> background_resource \<Rightarrow> background_info" where
  "background_to_dict enc bg =
     \<lparr>bi_name = Some (bg_name bg),
      bi_mode = Some (mode bg),
      bi_color = Some (uint (red (color bg)), uint (green (color bg)),
                       uint (blue (color bg)), uint (alpha (color bg))),
      bi_img_bytes = encode_img_bytes enc (bg_img_bytes bg),
      bi_img_format = Some (bg_img_format bg),
      bi_tiled = Some (tiled bg)\<rparr>"

definition object_to_dict :: "game_object_type \<Rightarrow> object_info" where
  "object_to_dict obj = \<lparr>oi_name = Some (obj_name obj), oi_sprite_index = Some (sprite_index obj)\<rparr>"

definition instance_to_dict :: "game_object_instance \<Rightarrow> instance_info" where
  "instance_to_dict inst =
     \<lparr>ii_x = Some (inst_x inst), ii_y = Some (inst_y inst),
      ii_object_index = Some (object_index inst)\<rparr>"

definition level_to_dict :: "level \<Rightarrow> level_info" where
  "level_to_dict lvl =
     \<lparr>li_name = Some (level_name lvl),
      li_width = Some (width lvl),
      li_height = Some (height lvl),
      li_background_index = background_index lvl,
      li_instances = Some (map instance_to_dict (instances lvl))\<rparr>"

text \<open>The dictionary \<^verbatim>\<open>data\<close> of \<^verbatim>\<open>save_project\<close>.  The selected sprite is not written.\<close>

definition save_project :: "(bytes \<Rightarrow> string) \<Rightarrow> ide \<Rightarrow> project_file" where
  "save_project enc st =
     \<lparr>pf_backgrounds = Some (map (background_to_dict enc) (backgrounds st)),
      pf_sprites = Some (map (sprite_to_dict enc) (sprites st)),
      pf_objects = Some (map object_to_dict (objects st)),
      pf_levels = Some (map level_to_dict (levels st)),
      pf_selected_level_index = selected_level_index st,
      pf_selected_object_index = selected_object_index st,
      pf_selected_background_index = selected_background_index st\<rparr>"

subsection \<open>Reading\<close>

text \<open>\<^verbatim>\<open>base64.b64decode(d["img_bytes"]) if d.get("img_bytes") else None\<close>; \<^verbatim>\<open>binascii.Error\<close> is
  a \<^verbatim>\<open>ValueError\<close>.\<close>

definition decode_img_bytes :: "(string \<Rightarrow> bytes option) \<Rightarrow> string option \<Rightarrow> py_error + bytes option" where
  "decode_img_bytes dec txt =
     (case txt of
        None \<Rightarrow> Inr None
      | Some s \<Rightarrow>
          if s = [] then Inr None
          else (case dec s of None \<Rightarrow> Inl ValueError | Some b \<Rightarrow> Inr (Some b)))"

text \<open>\<^verbatim>\<open>Sprite.from_dict\<close>.  The constructor starts with \<^verbatim>\<open>img_format.lower()\<close>, which raises
  \<^verbatim>\<open>AttributeError\<close> when the file gave \<^verbatim>\<open>null\<close> for the format.\<close>

definition sprite_from_dict :: "(string \<Rightarrow> bytes option) \<Rightarrow> sprite_info \<Rightarrow> py_error + sprite" where
  "sprite_from_dict dec d =
     (case decode_img_bytes dec (si_img_bytes d) of
        Inl e \<Rightarrow> Inl e
      | Inr img_bytes \<Rightarrow>
          (case si_name d of
             None \<Rightarrow> Inl (KeyError ''name'')
           | Some name \<Rightarrow>
               (case si_img_format d of
                  None \<Rightarrow> Inr (Sprite name img_bytes ''PNG'')
                | Some None \<Rightarrow> Inl AttributeError
                | Some (Some f) \<Rightarrow> Inr (Sprite name img_bytes f))))"

text \<open>\<^verbatim>\<open>BackgroundResource.from_dict\<close>: the image bytes, then the colour, then the name.\<close>

definition background_from_dict ::
  "(string \<Rightarrow> bytes option) \<Rightarrow> background_info \<Rightarrow> py_error + background_resource" where
  "background_from_dict dec d =
     (case decode_img_bytes dec (bi_img_bytes d) of
        Inl e \<Rightarrow> Inl e
      | Inr img_bytes \<Rightarrow>
          (case (case bi_color d of
                   None \<Rightarrow> Inr (QColor 200 200 255 255)
                 | Some (r, g, b, a) \<Rightarrow> QColor_args r g b a) of
             Inl e \<Rightarrow> Inl e
           | Inr col \<Rightarrow>
               (case bi_name d of
                  None \<Rightarrow> Inl (KeyError ''name'')
                | Some name \<Rightarrow>
                    Inr (BackgroundResource name
                           (case bi_mode d of None \<Rightarrow> ''color'' | Some m \<Rightarrow> m)
                           (Some col) img_bytes
                           (case bi_img_format d of None \<Rightarrow> ''PNG'' | Some f \<Rightarrow> f)
                           (case bi_tiled d of None \<Rightarrow> True | Some t \<Rightarrow> t)))))"

definition object_from_dict :: "object_info \<Rightarrow> py_error + game_object_type" where
  "object_from_dict d =
     (case oi_name d of
        None \<Rightarrow> Inl (KeyError ''name'')
      | Some name \<Rightarrow>
          (case oi_sprite_index d of
             None \<Rightarrow> Inl (KeyError ''sprite_index'')
           | Some si \<Rightarrow> Inr \<lparr>obj_name = name, sprite_index = si\<rparr>))"

text \<open>The inner loop over \<^verbatim>\<open>lvl_info["instances"]\<close>: an instance whose object index is not a
  position of the object types already loaded is skipped, before its coordinates are
  looked at.\<close>

fun load_instances ::
  "nat \<Rightarrow> instance_info list \<Rightarrow> game_object_instance list \<Rightarrow> py_error + game_object_instance list" where
  "load_instances n_objects [] acc = Inr acc"
| "load_instances n_objects (d # ds) acc =
     (case ii_object_index d of
        None \<Rightarrow> Inl (KeyError ''object_index'')
      | Some oi \<Rightarrow>
          if 0 \<le> oi \<and> oi < int n_objects then
            (case ii_x d of
               None \<Rightarrow> Inl (KeyError ''x'')
             | Some x \<Rightarrow>
                 (case ii_y d of
                    None \<Rightarrow> Inl (KeyError ''y'')
                  | Some y \<Rightarrow>
                      load_instances n_objects ds
                        (acc @ [\<lparr>inst_x = x, inst_y = y, object_index = oi\<rparr>])))
          else load_instances n_objects ds acc)"

definition level_from_dict :: "nat \<Rightarrow> level_info \<Rightarrow> py_error + level" where
  "level_from_dict n_objects d =
     (case li_name d of
        None \<Rightarrow> Inl (KeyError ''name'')
      | Some name \<Rightarrow>
          (case li_width d of
             None \<Rightarrow> Inl (KeyError ''width'')
           | Some w \<Rightarrow>
               (case li_height d of
                  None \<Rightarrow> Inl (KeyError ''height'')
                | Some h \<Rightarrow>
                    (case li_instances d of
                       None \<Rightarrow> Inl (KeyError ''instances'')
                     | Some infos \<Rightarrow>
                         (case load_instances n_objects infos [] of
                            Inl e \<Rightarrow> Inl e
                          | Inr insts \<Rightarrow>
                              Inr ((Level name w h (li_background_index d))
                                     \<lparr>instances := insts\<rparr>))))))"

text \<open>One of the four loops of \<^verbatim>\<open>open_project\<close>: the attribute has been set to \<^verbatim>\<open>[]\<close>, every
  entry built is appended to it, and an exception leaves it holding the entries appended
  so far.\<close>

fun load_entries :: "('d \<Rightarrow> py_error + 'a) \<Rightarrow> 'd list \<Rightarrow> 'a list \<Rightarrow> 'a list \<times> py_error option" where
  "load_entries build [] acc = (acc, None)"
| "load_entries build (d # ds) acc =
     (case build d of
        Inl e \<Rightarrow> (acc, Some e)
      | Inr x \<Rightarrow> load_entries build ds (acc @ [x]))"

definition load_backgrounds ::
  "(string \<Rightarrow> bytes option) \<Rightarrow> ide \<Rightarrow> project_file \<Rightarrow> ide \<times> py_error option" where
  "load_backgrounds dec st data =
     (case pf_backgrounds data of
        None \<Rightarrow> (st\<lparr>backgrounds := []\<rparr>, Some (KeyError ''backgrounds''))
      | Some infos \<Rightarrow>
          (case load_entries (background_from_dict dec) infos [] of
             (bgs, err) \<Rightarrow> (st\<lparr>backgrounds := bgs\<rparr>, err)))"

definition load_sprites ::
  "(string \<Rightarrow> bytes option) \<Rightarrow> ide \<Rightarrow> project_file \<Rightarrow> ide \<times> py_error option" where
  "load_sprites dec st data =
     (case pf_sprites data of
        None \<Rightarrow> (st\<lparr>sprites := []\<rparr>, Some (KeyError ''sprites''))
      | Some infos \<Rightarrow>
          (case load_entries (sprite_from_dict dec) infos [] of
             (sprs, err) \<Rightarrow> (st\<lparr>sprites := sprs\<rparr>, err)))"

definition load_objects :: "ide \<Rightarrow> project_file \<Rightarrow> ide \<times> py_error option" where
  "load_objects st data =
     (case pf_objects data of
        None \<Rightarrow> (st\<lparr>objects := []\<rparr>, Some (KeyError ''objects''))
      | Some infos \<Rightarrow>
          (case load_entries object_from_dict infos [] of
             (objs, err) \<Rightarrow> (st\<lparr>objects := objs\<rparr>, err)))"

definition load_levels :: "ide \<Rightarrow> project_file \<Rightarrow> ide \<times> py_error option" where
  "load_levels st data =
     (case pf_levels data of
        None \<Rightarrow> (st\<lparr>levels := []\<rparr>, Some (KeyError ''levels''))
      | Some infos \<Rightarrow>
          (case load_entries (level_from_dict (length (objects st))) infos [] of
             (lvls, err) \<Rightarrow> (st\<lparr>levels := lvls\<rparr>, err)))"

text \<open>The block under the comment \<^verbatim>\<open># Handle selected indices safely!\<close>.  First the three
  stored indices are taken over.  Then, list by list (levels, object types, backgrounds),
  when the list is not empty: the index is handed to the list widget's \<^verbatim>\<open>setCurrentRow\<close>, or
  set to 0 first when it is \<^verbatim>\<open>None\<close>.  \<open>select_row\<close> is that step for one list: the index
  the attribute holds after it and the exception raised, if any.  An exception ends the
  block with the later lists not yet looked at.  The list widgets send their \<^verbatim>\<open>clicked\<close>
  signal to the editor and no other, so \<^verbatim>\<open>setCurrentRow\<close> runs no handler.\<close>

definition select_row :: "'a list \<Rightarrow> int option \<Rightarrow> int option \<times> py_error option" where
  "select_row xs idx =
     (if xs \<noteq> [] then
        (case idx of
           Some i \<Rightarrow> (Some i, setCurrentRow i)
         | None \<Rightarrow> (Some 0, setCurrentRow 0))
      else (idx, None))"

definition load_selection :: "ide \<Rightarrow> project_file \<Rightarrow> ide \<times> py_error option" where
  "load_selection st data =
     (let st1 = st\<lparr>selected_level_index := pf_selected_level_index data,
                   selected_object_index := pf_selected_object_index data,
                   selected_background_index := pf_selected_background_index data\<rparr>
      in case select_row (levels st1) (selected_level_index st1) of
           (lvl_idx, Some e) \<Rightarrow> (st1\<lparr>selected_level_index := lvl_idx\<rparr>, Some e)
         | (lvl_idx, None) \<Rightarrow>
             (let st2 = st1\<lparr>selected_level_index := lvl_idx\<rparr>
              in case select_row (objects st2) (selected_object_index st2) of
                   (obj_idx, Some e) \<Rightarrow> (st2\<lparr>selected_object_index := obj_idx\<rparr>, Some e)
                 | (obj_idx, None) \<Rightarrow>
                     (let st3 = st2\<lparr>selected_object_index := obj_idx\<rparr>
                      in case select_row (backgrounds st3) (selected_background_index st3) of
                           (bg_idx, err) \<Rightarrow> (st3\<lparr>selected_background_index := bg_idx\<rparr>, err))))"

text \<open>What the file dialog and \<^verbatim>\<open>json.load\<close> hand to \<^verbatim>\<open>open_project\<close>: no file name (the
  dialog was cancelled), the exception that \<^verbatim>\<open>open\<close> or \<^verbatim>\<open>json.load\<close> raised, or the dictionary.
  Everything from \<^verbatim>\<open>open\<close> to the closing \<^verbatim>\<open>refresh_canvas\<close> is in one \<^verbatim>\<open>try\<close> block: whichever
  step raises, the load is reported as failed and the state stays as that step found it.
  (A JSON text that is not an object is not a \<open>project_file\<close>; the code treats it like the
  object without keys, with a \<^verbatim>\<open>TypeError\<close> in place of the \<^verbatim>\<open>KeyError\<close>.)\<close>

datatype picked_file = NoFile | BadFile py_error | JsonFile project_file

datatype load_outcome = NotOpened | Opened | Failed py_error

definition open_project ::
  "(string \<Rightarrow> bytes option) \<Rightarrow> ide \<Rightarrow> picked_file \<Rightarrow> ide \<times> load_outcome" where
  "open_project dec st file =
     (case file of
        NoFile \<Rightarrow> (st, NotOpened)
      | BadFile err \<Rightarrow> (st, Failed err)
      | JsonFile data \<Rightarrow>
          (case load_backgrounds dec st data of
             (st1, Some e) \<Rightarrow> (st1, Failed e)
           | (st1, None) \<Rightarrow>
               (case load_sprites dec st1 data of
                  (st2, Some e) \<Rightarrow> (st2, Failed e)
                | (st2, None) \<Rightarrow>
                    (case load_objects st2 data of
                       (st3, Some e) \<Rightarrow> (st3, Failed e)
                     | (st3, None) \<Rightarrow>
                         (case load_levels st3 data of
                            (st4, Some e) \<Rightarrow> (st4, Failed e)
                          | (st4, None) \<Rightarrow>
                              (case load_selection st4 data of
                                 (st5, Some e) \<Rightarrow> (st5, Failed e)
                               | (st5, None) \<Rightarrow>
                                   (case refresh_canvas st5 of
                                      Some e \<Rightarrow> (st5, Failed e)
                                    | None \<Rightarrow> (st5, Opened))))))))"

text \<open>For a statement of what a failed load leaves behind: the entries of a list of the
  file that are built before the first one that raises, and whether the whole list of a
  key can be built.\<close>

fun built :: "('d \<Rightarrow> py_error + 'a) \<Rightarrow> 'd list \<Rightarrow> 'a list" where
  "built build [] = []"
| "built build (d # ds) = (case build d of Inl e \<Rightarrow> [] | Inr x \<Rightarrow> x # built build ds)"




text \<open>What opening a saved project needs of the integers in it: a selection index that is
  handed to \<^verbatim>\<open>setCurrentRow\<close>, and the width and height of a level, fit a C \<^verbatim>\<open>int\<close>.\<close>

definition row_fits :: "'a list \<Rightarrow> int option \<Rightarrow> bool" where
  "row_fits xs idx = (case idx of None \<Rightarrow> True | Some i \<Rightarrow> xs = [] \<or> c_int i)"

definition size_fits :: "level \<Rightarrow> bool" where
  "size_fits lvl = (c_int (width lvl) \<and> c_int (height lvl))"

section \<open>Base64\<close>

text \<open>The standard Base64 alphabet with padding (RFC 4648), for concrete projects with image
  bytes.  \<open>b64decode\<close> reads groups of four alphabet characters, the last group padded
  with \<^verbatim>\<open>=\<close>; Python's decoder accepts these texts and some more (it skips characters
  outside the alphabet).\<close>

definition b64_char :: "nat \<Rightarrow> char" where
  "b64_char n =
     char_of (if n < 26 then n + 65 else if n < 52 then n + 71 else if n < 62 then n - 4
              else if n = 62 then 43 else (47::nat))"

definition b64_value :: "char \<Rightarrow> nat option" where
  "b64_value c =
     (let v = (of_char c :: nat) in
      if 65 \<le> v \<and> v \<le> 90 then Some (v - 65)
      else if 97 \<le> v \<and> v \<le> 122 then Some (v - 71)
      else if 48 \<le> v \<and> v \<le> 57 then Some (v + 4)
      else if v = 43 then Some 62
      else if v = 47 then Some 63
      else None)"

definition sextet1 :: "nat \<Rightarrow> nat" where
  "sextet1 x = x div 4"

definition sextet2 :: "nat \<Rightarrow> nat \<Rightarrow> nat" where
  "sextet2 x y = (x mod 4) * 16 + y div 16"

definition sextet3 :: "nat \<Rightarrow> nat \<Rightarrow> nat" where
  "sextet3 y z = (y mod 16) * 4 + z div 64"

definition sextet4 :: "nat \<Rightarrow> nat" where
  "sextet4 z = z mod 64"

definition octet1 :: "nat \<Rightarrow> nat \<Rightarrow> 8 word" where
  "octet1 s1 s2 = of_nat (s1 * 4 + s2 div 16)"

definition octet2 :: "nat \<Rightarrow> nat \<Rightarrow> 8 word" where
  "octet2 s2 s3 = of_nat ((s2 mod 16) * 16 + s3 div 4)"

definition octet3 :: "nat \<Rightarrow> nat \<Rightarrow> 8 word" where
  "octet3 s3 s4 = of_nat ((s3 mod 4) * 64 + s4)"

fun b64encode :: "bytes \<Rightarrow> string" where
  "b64encode [] = []"
| "b64encode [a] =
     [b64_char (sextet1 (unat a)), b64_char (sextet2 (unat a) 0), CHR ''='', CHR ''='']"
| "b64encode [a, b] =
     [b64_char (sextet1 (unat a)), b64_char (sextet2 (unat a) (unat b)),
      b64_char (sextet3 (unat b) 0), CHR ''='']"
| "b64encode (a # b # c # rest) =
     [b64_char (sextet1 (unat a)), b64_char (sextet2 (unat a) (unat b)),
      b64_char (sextet3 (unat b) (unat c)), b64_char (sextet4 (unat c))] @ b64encode rest"

fun b64decode :: "string \<Rightarrow> bytes option" where
  "b64decode [] = Some []"
| "b64decode (c1 # c2 # c3 # c4 # rest) =
     (case (b64_value c1, b64_value c2) of
        (Some s1, Some s2) \<Rightarrow>
          (if c3 = CHR ''='' then
             (if c4 = CHR ''='' \<and> rest = [] then Some [octet1 s1 s2] else None)
           else
             (case b64_value c3 of
                None \<Rightarrow> None
              | Some s3 \<Rightarrow>
                  (if c4 = CHR ''='' then
                     (if rest = [] then Some [octet1 s1 s2, octet2 s2 s3] else None)
                   else
                     (case b64_value c4 of
                        None \<Rightarrow> None
                      | Some s4 \<Rightarrow>
                          map_option (\<lambda>bs. [octet1 s1 s2, octet2 s2 s3, octet3 s3 s4] @ bs)
                            (b64decode rest)))))
      | _ \<Rightarrow> None)"
| "b64decode _ = None"

text \<open>What the round trip needs of the two Base64 functions: bytes that are not empty are
  encoded to a text that is not empty, and decoding that text gives the bytes back.\<close>

definition codec_ok :: "(bytes \<Rightarrow> string) \<Rightarrow> (string \<Rightarrow> bytes option) \<Rightarrow> bool" where
  "codec_ok enc dec = (\<forall>b. b \<noteq> [] \<longrightarrow> enc b \<noteq> [] \<and> dec (enc b) = Some b)"

text \<open>An image payload that is either missing or holds at least one byte.\<close>

definition payload_ok :: "bytes option \<Rightarrow> bool" where
  "payload_ok img_bytes = (img_bytes \<noteq> Some [])"

section \<open>Example projects\<close>

text \<open>A project with nothing in it, and the project the constructor of \<^verbatim>\<open>GameMakerIDE\<close> builds
  from it: one background, one level, one object type and one sprite.\<close>

definition empty_project :: ide where
  "empty_project =
     \<lparr>sprites = [], objects = [], levels = [], backgrounds = [],
      selected_sprite_index = None, selected_object_index = None,
      selected_level_index = None, selected_background_index = None, grid_size = 32\<rparr>"

definition initial_project :: ide where
  "initial_project =
     add_sprite (add_object (add_level (add_background empty_project True None) True [] False)
                   True [] False) True None"

text \<open>The initial project after one left click at (40, 40), which places an instance of
  the selected object type at (32, 32).\<close>

definition placed_project :: ide where
  "placed_project =
     \<lparr>sprites = [Sprite ''Sprite 1'' None ''PNG''],
      objects = [\<lparr>obj_name = ''Object 1'', sprite_index = None\<rparr>],
      levels = [\<lparr>level_name = ''Level 1'', width = 640, height = 360,
                  background_index = Some 0,
                  instances = [\<lparr>inst_x = 32, inst_y = 32, object_index = 0\<rparr>]\<rparr>],
      backgrounds = [BackgroundResource ''Background 1'' ''color'' (Some (QColor 200 200 255 255))
                       None ''PNG'' True],
      selected_sprite_index = None, selected_object_index = Some 0,
      selected_level_index = Some 0, selected_background_index = None, grid_size = 32\<rparr>"

text \<open>\<open>placed_project\<close> after the resize dialog was given \<^verbatim>\<open>2147483648,5\<close>.\<close>

definition wide_project :: ide where
  "wide_project =
     placed_project
       \<lparr>levels := [\<lparr>level_name = ''Level 1'', width = 2147483648, height = 5,
                     background_index = Some 0,
                     instances = [\<lparr>inst_x = 32, inst_y = 32, object_index = 0\<rparr>]\<rparr>]\<rparr>"

text \<open>A larger project: three sprites, four object types, two levels, two backgrounds, the
  second entry of each of sprites and object types selected.\<close>

definition example_project :: ide where
  "example_project =
     \<lparr>sprites = [Sprite ''A'' None ''PNG'', Sprite ''B'' (Some [0x4D, 0x61, 0x6E]) ''PNG'',
                 Sprite ''C'' None ''PNG''],
      objects = [\<lparr>obj_name = ''Hero'', sprite_index = Some 0\<rparr>,
                 \<lparr>obj_name = ''Wall'', sprite_index = Some 1\<rparr>,
                 \<lparr>obj_name = ''Coin'', sprite_index = Some 2\<rparr>,
                 \<lparr>obj_name = ''Ghost'', sprite_index = None\<rparr>],
      levels = [\<lparr>level_name = ''L1'', width = 640, height = 360, background_index = Some 1,
                  instances = [\<lparr>inst_x = 0, inst_y = 0, object_index = 0\<rparr>,
                               \<lparr>inst_x = 32, inst_y = 0, object_index = 1\<rparr>,
                               \<lparr>inst_x = 64, inst_y = 0, object_index = 2\<rparr>,
                               \<lparr>inst_x = 96, inst_y = 0, object_index = 1\<rparr>]\<rparr>,
                \<lparr>level_name = ''L2'', width = 320, height = 240, background_index = Some 0,
                  instances = [\<lparr>inst_x = 0, inst_y = 0, object_index = 2\<rparr>]\<rparr>],
      backgrounds = [BackgroundResource ''Sky'' ''color'' None None ''PNG'' True,
                     BackgroundResource ''Night'' ''color'' (Some (Rgba 0 0 32 255)) None
                       ''PNG'' True],
      selected_sprite_index = Some 1,
      selected_object_index = Some 1,
      selected_level_index = Some 0,
      selected_background_index = Some 0,
      grid_size = 32\<rparr>"

text \<open>The scenario of the specification: an empty project, a colour background "Sky", a
  level "L1", an object type "Hero", one instance placed by a click at (32, 32); then
  background 0 is selected and deleted.\<close>

definition scenario_placed :: "(sprite \<Rightarrow> int \<times> int) \<Rightarrow> py_error + ide" where
  "scenario_placed decoded =
     (let s1 = add_background empty_project False
                 (Some (''Sky'', ''color'', QColor 200 200 255 255, None, ''PNG'', True));
          s2 = add_level s1 False ''L1'' True;
          s3 = add_object s2 False ''Hero'' True
      in mousePressEvent decoded s3 LeftButton 32 32)"

definition scenario :: "(sprite \<Rightarrow> int \<times> int) \<Rightarrow> py_error + ide" where
  "scenario decoded =
     (case scenario_placed decoded of
        Inl e \<Rightarrow> Inl e
      | Inr s4 \<Rightarrow> Inr (delete_background (on_background_selected s4 0) True))"

text \<open>A project in which the object type's sprite index is \<open>-1\<close>, as a project file may
  store it.\<close>

definition ghost_project :: ide where
  "ghost_project =
     \<lparr>sprites = [Sprite ''A'' None ''PNG''],
      objects = [\<lparr>obj_name = ''Ghost'', sprite_index = Some (- 1)\<rparr>],
      levels = [\<lparr>level_name = ''L1'', width = 640, height = 360, background_index = None,
                  instances = [\<lparr>inst_x = 0, inst_y = 0, object_index = 0\<rparr>]\<rparr>],
      backgrounds = [],
      selected_sprite_index = None, selected_object_index = None,
      selected_level_index = Some 0, selected_background_index = None, grid_size = 32\<rparr>"


definition stale_selection_file :: project_file where
  "stale_selection_file =
     \<lparr>pf_backgrounds = Some [],
      pf_sprites = Some [],
      pf_objects = Some [\<lparr>oi_name = Some ''Hero'', oi_sprite_index = Some None\<rparr>],
      pf_levels = Some [\<lparr>li_name = Some ''L1'', li_width = Some 640, li_height = Some 360,
                         li_background_index = None, li_instances = Some []\<rparr>],
      pf_selected_level_index = Some 0,
      pf_selected_object_index = Some 7,
      pf_selected_background_index = Some 2\<rparr>"





text \<open>A file in which a sprite's format is \<^verbatim>\<open>null\<close>.\<close>

definition null_format_file :: project_file where
  "null_format_file =
     \<lparr>pf_backgrounds = Some [],
      pf_sprites = Some [\<lparr>si_name = Some ''S'', si_img_bytes = None, si_img_format = Some None\<rparr>],
      pf_objects = Some [],
      pf_levels = Some [],
      pf_selected_level_index = None, pf_selected_object_index = None,
      pf_selected_background_index = None\<rparr>"

text \<open>The project after \<open>stale_selection_file\<close> has been opened in an empty editor.\<close>

definition stale_loaded :: ide where
  "stale_loaded = fst (open_project b64decode empty_project (JsonFile stale_selection_file))"

section \<open>Properties of the list and string helpers\<close>

lemma length_delete_at: "k < length xs \<Longrightarrow> length (delete_at xs k) = length xs - 1"
  by (auto simp: delete_at_def)

lemma set_delete_at: "set (delete_at xs k) \<subseteq> set xs"
  by (auto simp: delete_at_def dest: in_set_takeD in_set_dropD)

lemma list_all_delete_at: "list_all P xs \<Longrightarrow> list_all P (delete_at xs k)"
  using set_delete_at[of xs k] by (auto simp: list_all_iff)

lemma set_update_cases: "x \<in> set (xs[k := y]) \<Longrightarrow> x = y \<or> x \<in> set xs"
  by (meson insert_iff set_update_subset_insert subsetD)

lemma strip_examples:
  "strip ''L1'' = ''L1''" "strip ''Hero'' = ''Hero''" "strip ''L3'' = ''L3''"
  "strip ''Boss'' = ''Boss''" "strip ''  '' = []" "strip [] = []"
  by (simp_all add: strip_def py_isspace_def)

text \<open>A name made of a no-break space and a next-line control is blank.\<close>

lemma strip_latin1_blank: "strip [CHR 0xA0, CHR 0x85] = []"
  by (simp add: strip_def py_isspace_def)

text \<open>Short texts are read the same way under every digit limit.\<close>

lemma parse_size_examples:
  "parse_size lim ''-1,100'' = Some (- 1, 100)"
  "parse_size lim ''800,600'' = Some (800, 600)"
  "parse_size lim ''800x600'' = None"
  "parse_size lim ''800'' = None"
  "parse_size lim ''2147483648,5'' = Some (2147483648, 5)"
  by (simp_all add: parse_size_def py_int_def int_isspace_def too_many_digits_def
        signed_int_def unsigned_int_def is_digit_def digit_val_def)

text \<open>\<^verbatim>\<open>int\<close> does not skip the separator 0x1C, which \<^verbatim>\<open>strip()\<close> removes; it does skip the
  no-break space; and it takes underscores between digits.\<close>

lemma py_int_examples:
  "py_int lim [CHR 0x1C, CHR ''5''] = None"
  "strip [CHR 0x1C, CHR ''5''] = ''5''"
  "py_int lim [CHR 0xA0, CHR ''5'', CHR 0x0A] = Some 5"
  "py_int lim '' +1_000 '' = Some 1000"
  "py_int lim ''1__0'' = None"
  "py_int lim ''- 1'' = None"
  "py_int lim [] = None"
  by (simp_all add: py_int_def int_isspace_def too_many_digits_def signed_int_def
        unsigned_int_def is_digit_def digit_val_def strip_def py_isspace_def)

text \<open>The digit limit: 4301 zeros are refused under the limit of 4300, and read as 0 when
  there is no limit.\<close>

lemma int_digits_zeros: "int_digits (replicate n (CHR ''0'')) 0 = Some 0"
proof (induction n rule: less_induct)
  case (less n)
  show ?case
  proof (cases n)
    case 0
    then show ?thesis by simp
  next
    case (Suc m)
    show ?thesis
    proof (cases m)
      case 0
      with Suc show ?thesis by (simp add: is_digit_def digit_val_def)
    next
      case (Suc k)
      with \<open>n = Suc m\<close> less.IH[of m] show ?thesis
        by (simp add: is_digit_def digit_val_def)
    qed
  qed
qed

lemma py_int_digit_limit:
  "py_int 4300 (replicate 4301 (CHR ''0'')) = None"
  "py_int 0 (replicate 4301 (CHR ''0'')) = Some 0"
proof -
  have sp: "\<not> int_isspace (CHR ''0'')" and dg: "is_digit (CHR ''0'')"
    by (simp_all add: int_isspace_def is_digit_def)
  have body: "rev (dropWhile int_isspace (rev (dropWhile int_isspace (replicate 4301 (CHR ''0''))))) =
              replicate 4301 (CHR ''0'')"
    using sp by (simp add: dropWhile_replicate)
  have cnt: "length (filter is_digit (replicate 4301 (CHR ''0''))) = 4301"
    using dg by simp
  have rep: "replicate 4301 (CHR ''0'') = CHR ''0'' # replicate 4300 (CHR ''0'')"
    by (simp add: replicate_Suc[symmetric] del: replicate_Suc)
  show "py_int 4300 (replicate 4301 (CHR ''0'')) = None"
    unfolding py_int_def body by (simp only: too_many_digits_def cnt Let_def) simp
  have "signed_int (replicate 4301 (CHR ''0'')) = Some 0"
    unfolding rep using int_digits_zeros[of 4300]
    by (simp add: signed_int_def unsigned_int_def is_digit_def digit_val_def)
  then show "py_int 0 (replicate 4301 (CHR ''0'')) = Some 0"
    unfolding py_int_def body by (simp add: too_many_digits_def)
qed

text \<open>The extension of an accepted image file.  A character that \<^verbatim>\<open>lower()\<close> turns into one of
  a to z is that letter or its capital, so the part of an accepted path after its last
  dot is one of the five extensions in some mix of cases, and \<^verbatim>\<open>upper()\<close> is applied to
  letters from A to Z only.\<close>

lemma of_char_lower_char:
  "(of_char (lower_char c) :: nat) =
     (if (65 \<le> (of_char c :: nat) \<and> (of_char c :: nat) \<le> 90) \<or>
         (192 \<le> (of_char c :: nat) \<and> (of_char c :: nat) \<le> 222 \<and> (of_char c :: nat) \<noteq> 215)
      then of_char c + 32 else of_char c)"
  by (simp add: lower_char_def Let_def)

lemma upper_of_lower:
  assumes "lower_char c = x" "97 \<le> (of_char x :: nat)" "(of_char x :: nat) \<le> 122"
  shows "upper_char c = upper_char x"
proof -
  let ?n = "of_char c :: nat"
  have x: "(of_char x :: nat) = (if (65 \<le> ?n \<and> ?n \<le> 90) \<or> (192 \<le> ?n \<and> ?n \<le> 222 \<and> ?n \<noteq> 215)
             then ?n + 32 else ?n)"
    using of_char_lower_char[of c] assms(1) by simp
  show ?thesis
  proof (cases "65 \<le> ?n \<and> ?n \<le> 90")
    case True
    with x have "(of_char x :: nat) = ?n + 32" by simp
    with True show ?thesis by (simp add: upper_char_def Let_def)
  next
    case False
    with x assms(2,3) have "(of_char x :: nat) = ?n" by (auto split: if_splits)
    then have "x = c" by simp
    then show ?thesis by simp
  qed
qed

lemma upper_of_lower_list:
  assumes "lower ext = e" "list_all (\<lambda>x. 97 \<le> (of_char x :: nat) \<and> (of_char x :: nat) \<le> 122) e"
  shows "upper ext = upper e"
  using assms
proof (induction ext arbitrary: e)
  case Nil
  then show ?case by (simp add: lower_def upper_def)
next
  case (Cons c cs)
  then obtain x xs where e: "e = x # xs" "lower_char c = x" "lower cs = xs"
    by (auto simp: lower_def)
  with Cons.prems(2) have "upper_char c = upper_char x" "upper cs = upper xs"
    using upper_of_lower[of c x] Cons.IH[of xs] by simp_all
  with e show ?case by (simp add: upper_def)
qed

lemma lower_char_dot: "lower_char c = CHR ''.'' \<longleftrightarrow> c = CHR ''.''"
proof
  assume "lower_char c = CHR ''.''"
  then have "(of_char (lower_char c) :: nat) = 46" by simp
  then have "(of_char c :: nat) = 46" by (simp add: of_char_lower_char split: if_splits)
  moreover have "(of_char (CHR ''.'') :: nat) = 46" by simp
  ultimately have "(of_char c :: nat) = of_char (CHR ''.'')" by simp
  then show "c = CHR ''.''" by (simp only: of_char_eq_iff)
next
  assume "c = CHR ''.''"
  then show "lower_char c = CHR ''.''" by (simp add: lower_char_def)
qed

lemma split_no_sep: "sep \<notin> set xs \<Longrightarrow> split sep xs = [xs]"
  by (induction xs) auto

lemma split_not_Nil: "split sep xs \<noteq> []"
  by (induction xs) (auto split: list.splits)

lemma last_split_append:
  "last (split sep (pre @ sep # ext)) = last (split sep ext) \<and>
   2 \<le> length (split sep (pre @ sep # ext))"
proof (induction pre)
  case Nil
  show ?case using split_not_Nil[of sep ext] by (cases "split sep ext") simp_all
next
  case (Cons c cs)
  obtain p q ps where sp: "split sep (cs @ sep # ext) = p # q # ps"
    using Cons by (cases "split sep (cs @ sep # ext)"; cases "tl (split sep (cs @ sep # ext))") auto
  with Cons show ?case by auto
qed

lemma extension_of_suffix:
  assumes "endswith (lower path) (CHR ''.'' # e)" "CHR ''.'' \<notin> set e"
  shows "lower (last (split CHR ''.'' path)) = e"
proof -
  let ?k = "length path - Suc (length e)"
  have len: "Suc (length e) \<le> length path"
    and suf: "drop ?k (lower path) = CHR ''.'' # e"
    using assms(1) by (simp_all add: endswith_def lower_def)
  define ext where "ext = drop (Suc ?k) path"
  have k: "?k < length path" using len by simp
  have path: "path = take ?k path @ path ! ?k # ext"
    unfolding ext_def using k by (simp add: id_take_nth_drop[symmetric])
  have "drop ?k (lower path) = lower_char (path ! ?k) # lower ext"
    unfolding ext_def lower_def using k
    by (simp add: drop_map Cons_nth_drop_Suc[of ?k path, symmetric])
  with suf have d: "lower_char (path ! ?k) = CHR ''.''" and e: "lower ext = e" by simp_all
  from d have dot: "path ! ?k = CHR ''.''" by (simp add: lower_char_dot)
  have "CHR ''.'' \<notin> set ext"
  proof
    assume "CHR ''.'' \<in> set ext"
    then have "lower_char (CHR ''.'') \<in> set (lower ext)" by (simp add: lower_def)
    with e assms(2) show False by (simp add: lower_char_dot[THEN iffD2])
  qed
  then have "last (split CHR ''.'' (take ?k path @ CHR ''.'' # ext)) = ext"
    using last_split_append[of "CHR ''.''" "take ?k path" ext] by (simp add: split_no_sep)
  with path dot e show ?thesis by simp
qed

lemma upper_extensions:
  "upper ''png'' = ''PNG''" "upper ''jpg'' = ''JPG''" "upper ''jpeg'' = ''JPEG''"
  "upper ''bmp'' = ''BMP''" "upper ''gif'' = ''GIF''"
  by code_simp+

lemma image_extension:
  assumes "is_image_file (is_local, path, content)"
  shows "upper (last (split CHR ''.'' path)) \<in> {''PNG'', ''JPG'', ''JPEG'', ''BMP'', ''GIF''} \<and>
         list_all (\<lambda>x. 97 \<le> (of_char x :: nat) \<and> (of_char x :: nat) \<le> 122)
           (lower (last (split CHR ''.'' path)))"
proof -
  let ?ext = "last (split CHR ''.'' path)"
  from assms have "lower ?ext \<in> {''png'', ''jpg'', ''jpeg'', ''bmp'', ''gif''}"
    using extension_of_suffix[of path "''png''"] extension_of_suffix[of path "''jpg''"]
      extension_of_suffix[of path "''jpeg''"] extension_of_suffix[of path "''bmp''"]
      extension_of_suffix[of path "''gif''"]
    by (auto simp: is_image_file_def)
  then consider "lower ?ext = ''png''" | "lower ?ext = ''jpg''" | "lower ?ext = ''jpeg''"
    | "lower ?ext = ''bmp''" | "lower ?ext = ''gif''" by auto
  then show ?thesis
  proof cases
    case 1
    from upper_of_lower_list[OF 1] 1 show ?thesis by (simp add: upper_extensions)
  next
    case 2
    from upper_of_lower_list[OF 2] 2 show ?thesis by (simp add: upper_extensions)
  next
    case 3
    from upper_of_lower_list[OF 3] 3 show ?thesis by (simp add: upper_extensions)
  next
    case 4
    from upper_of_lower_list[OF 4] 4 show ?thesis by (simp add: upper_extensions)
  next
    case 5
    from upper_of_lower_list[OF 5] 5 show ?thesis by (simp add: upper_extensions)
  qed
qed

section \<open>Referential integrity\<close>

lemma ref_ok_mono: "ref_ok r n \<Longrightarrow> n \<le> m \<Longrightarrow> ref_ok r m"
  by (auto simp: ref_ok_def split: option.splits)

lemma object_ok_mono: "object_ok n obj \<Longrightarrow> n \<le> m \<Longrightarrow> object_ok m obj"
  by (auto simp: object_ok_def intro: ref_ok_mono)

lemma level_ok_mono: "level_ok n m lvl \<Longrightarrow> n \<le> n' \<Longrightarrow> m \<le> m' \<Longrightarrow> level_ok n' m' lvl"
  by (auto simp: level_ok_def instance_ok_def list_all_iff intro: ref_ok_mono)

lemma levels_ok_more_backgrounds:
  "list_all (level_ok n m) lvls \<Longrightarrow> list_all (level_ok (Suc n) m) lvls"
  by (auto simp: list_all_iff intro: level_ok_mono)

lemma levels_ok_more_objects:
  "list_all (level_ok n m) lvls \<Longrightarrow> list_all (level_ok n (Suc m)) lvls"
  by (auto simp: list_all_iff intro: level_ok_mono)

lemma objects_ok_more_sprites:
  "list_all (object_ok n) objs \<Longrightarrow> list_all (object_ok (Suc n)) objs"
  by (auto simp: list_all_iff intro: object_ok_mono)

text \<open>Deleting sprite \<open>k\<close> and unlinking it from every object type keeps the object types
  within the shorter sprite list.\<close>

lemma objects_ok_unlink:
  assumes "list_all (object_ok (length sprs)) objs" "0 \<le> k" "k < int (length sprs)"
  shows "list_all (object_ok (length (delete_at sprs (nat k)))) (map (unlink_sprite k) objs)"
proof -
  have len: "length (delete_at sprs (nat k)) = length sprs - 1"
    using assms by (simp add: length_delete_at)
  have "object_ok (length sprs - 1) (unlink_sprite k obj)" if "object_ok (length sprs) obj" for obj
    using that assms(2,3)
    by (auto simp: object_ok_def unlink_sprite_def ref_ok_def split: option.splits)
  then show ?thesis using assms(1) by (auto simp: len list_all_iff)
qed

lemma levels_ok_unlink:
  assumes "list_all (level_ok (length bgs) m) lvls" "0 \<le> k" "k < int (length bgs)"
  shows "list_all (level_ok (length (delete_at bgs (nat k))) m) (map (unlink_background k) lvls)"
proof -
  have len: "length (delete_at bgs (nat k)) = length bgs - 1"
    using assms by (simp add: length_delete_at)
  have "level_ok (length bgs - 1) m (unlink_background k lvl)" if "level_ok (length bgs) m lvl" for lvl
    using that assms(2,3)
    by (auto simp: level_ok_def unlink_background_def ref_ok_def split: option.splits)
  then show ?thesis using assms(1) by (auto simp: len list_all_iff)
qed

lemma levels_ok_drop:
  assumes "list_all (level_ok n (length objs)) lvls" "0 \<le> k" "k < int (length objs)"
  shows "list_all (level_ok n (length (delete_at objs (nat k)))) (map (drop_object_instances k) lvls)"
proof -
  have len: "length (delete_at objs (nat k)) = length objs - 1"
    using assms by (simp add: length_delete_at)
  have "level_ok n (length objs - 1) (drop_object_instances k lvl)" if "level_ok n (length objs) lvl" for lvl
    using that assms(2,3)
    by (auto simp: level_ok_def drop_object_instances_def shift_object_ref_def instance_ok_def
          list_all_iff)
  then show ?thesis using assms(1) by (auto simp: len list_all_iff)
qed

lemma objects_ok_rename:
  "list_all (object_ok n) objs \<Longrightarrow> k < length objs \<Longrightarrow>
   list_all (object_ok n) (objs[k := (objs ! k)\<lparr>obj_name := name\<rparr>])"
  by (auto simp: list_all_iff object_ok_def dest!: set_update_cases)

lemma levels_ok_rename:
  assumes "list_all (level_ok n m) lvls" "k < length lvls"
  shows "list_all (level_ok n m) (lvls[k := (lvls ! k)\<lparr>level_name := name\<rparr>])"
proof -
  from assms have "level_ok n m (lvls ! k)" by (simp add: list_all_length)
  then have "level_ok n m ((lvls ! k)\<lparr>level_name := name\<rparr>)" by (simp add: level_ok_def)
  with assms(1) show ?thesis by (auto simp: list_all_iff dest!: set_update_cases)
qed

lemma integrity_delete_sprite: "integrity st \<Longrightarrow> integrity (delete_sprite st c)"
  by (auto simp: integrity_def delete_sprite_def objects_ok_unlink split: option.splits)

lemma integrity_delete_background: "integrity st \<Longrightarrow> integrity (delete_background st c)"
  by (auto simp: integrity_def delete_background_def levels_ok_unlink split: option.splits)

lemma integrity_delete_object: "integrity st \<Longrightarrow> integrity (delete_object st c)"
  by (auto simp: integrity_def delete_object_def levels_ok_drop list_all_delete_at
        split: option.splits)

lemma integrity_delete_level: "integrity st \<Longrightarrow> integrity (delete_level st c)"
  by (auto simp: integrity_def delete_level_def Let_def list_all_delete_at split: option.splits)

lemma integrity_add_background: "integrity st \<Longrightarrow> integrity (add_background st i dlg)"
  by (auto simp: integrity_def add_background_def levels_ok_more_backgrounds split: option.splits)

lemma integrity_bg_dropEvent:
  "integrity st \<Longrightarrow> bg_dropEvent st urls = Inr st' \<Longrightarrow> integrity st'"
  by (auto simp: integrity_def bg_dropEvent_def Let_def levels_ok_more_backgrounds
        split: option.splits)

lemma integrity_add_sprite: "integrity st \<Longrightarrow> integrity (add_sprite st i dlg)"
  by (auto simp: integrity_def add_sprite_def objects_ok_more_sprites split: option.splits)

lemma integrity_sprite_dropEvent:
  "integrity st \<Longrightarrow> sprite_dropEvent st urls = Inr st' \<Longrightarrow> integrity st'"
  by (auto simp: integrity_def sprite_dropEvent_def Let_def objects_ok_more_sprites
        split: option.splits)

lemma integrity_add_object: "integrity st \<Longrightarrow> integrity (add_object st i name ok)"
  by (auto simp: integrity_def add_object_def Let_def object_ok_def ref_ok_def
        levels_ok_more_objects)

text \<open>A level added from the button refers to background 0 only when there is one.\<close>

lemma integrity_add_level: "integrity st \<Longrightarrow> integrity (add_level st False name ok)"
  by (auto simp: integrity_def add_level_def Let_def level_ok_def ref_ok_def Level_def)

lemma integrity_rename_background: "integrity st \<Longrightarrow> integrity (rename_background st name ok)"
  by (auto simp: integrity_def rename_background_def split: option.splits)

lemma integrity_rename_sprite: "integrity st \<Longrightarrow> integrity (rename_sprite st name ok)"
  by (auto simp: integrity_def rename_sprite_def split: option.splits)

lemma integrity_rename_object: "integrity st \<Longrightarrow> integrity (rename_object st name ok)"
  by (auto simp: integrity_def rename_object_def objects_ok_rename split: option.splits)

lemma integrity_rename_level: "integrity st \<Longrightarrow> integrity (rename_level st name ok)"
  by (auto simp: integrity_def rename_level_def levels_ok_rename split: option.splits)

lemma integrity_select:
  "integrity st \<Longrightarrow> integrity (on_background_selected st r)"
  "integrity st \<Longrightarrow> integrity (on_sprite_selected st r)"
  "integrity st \<Longrightarrow> integrity (on_object_selected st r)"
  "integrity st \<Longrightarrow> integrity (on_level_selected st r)"
  by (auto simp: integrity_def on_background_selected_def on_sprite_selected_def
        on_object_selected_def on_level_selected_def)

lemma integrity_perform: "integrity st \<Longrightarrow> integrity (perform st a)"
  by (cases a)
     (auto simp: integrity_delete_sprite integrity_delete_background integrity_delete_object
        integrity_delete_level integrity_add_background integrity_add_sprite
        integrity_add_object integrity_add_level integrity_rename_background
        integrity_rename_sprite integrity_rename_object integrity_rename_level integrity_select
        intro: integrity_bg_dropEvent integrity_sprite_dropEvent split: sum.splits)

lemma integrity_example_project: "integrity example_project"
  by (simp add: example_project_def integrity_def object_ok_def level_ok_def ref_ok_def
        instance_ok_def)

lemma integrity_initial_project: "integrity initial_project"
  by (simp add: initial_project_def empty_project_def add_background_def add_level_def
        add_object_def add_sprite_def Level_def integrity_def object_ok_def level_ok_def
        ref_ok_def Let_def)

text \<open>
  \<^bold>\<open>Claim C1.\<close>  Starting from a project whose foreign keys are all valid or \<^verbatim>\<open>None\<close>, the
  project after each action of any sequence of add, drop-to-add, rename, delete and
  select actions has every sprite index of an object type and every background index of
  a level \<^verbatim>\<open>None\<close> or a position of its collection, and every object index of a placed
  instance a position of the object types.
\<close>

theorem referential_integrity:
  "integrity st \<Longrightarrow> list_all integrity (run st actions)"
  by (induction actions arbitrary: st) (auto simp: integrity_perform)

theorem referential_integrity_witness:
  "integrity example_project \<and>
   list_all integrity
     (run example_project
        [SelectSprite 1, DeleteSprite True, AddObject ''Boss'' True, SelectObject 0,
         DeleteObject True, AddLevel ''L3'' True, RenameLevel ''L3'' True,
         DeleteBackground True, AddSprite (Some (''D'', None, ''PNG''))]) \<and>
   length (run example_project
        [SelectSprite 1, DeleteSprite True, AddObject ''Boss'' True, SelectObject 0,
         DeleteObject True, AddLevel ''L3'' True, RenameLevel ''L3'' True,
         DeleteBackground True, AddSprite (Some (''D'', None, ''PNG''))]) = 9"
  using integrity_example_project
    referential_integrity[OF integrity_example_project,
      of "[SelectSprite 1, DeleteSprite True, AddObject ''Boss'' True, SelectObject 0,
           DeleteObject True, AddLevel ''L3'' True, RenameLevel ''L3'' True,
           DeleteBackground True, AddSprite (Some (''D'', None, ''PNG''))]"]
  by simp

section \<open>Cascades on delete\<close>

text \<open>
  \<^bold>\<open>Claim C2.\<close>  When sprite \<open>k\<close> is selected, \<open>k\<close> is a position of the sprite list and the
  deletion is confirmed, \<^verbatim>\<open>delete_sprite\<close> removes entry \<open>k\<close> of the sprites and keeps the
  object types in place with their names; an object type whose sprite index was \<open>k\<close> gets
  \<^verbatim>\<open>None\<close>, one whose sprite index was greater than \<open>k\<close> gets it decremented by one, and
  every other object type keeps its sprite index.
\<close>

theorem delete_sprite_cascade:
  assumes "selected_sprite_index st = Some k"
    and "0 \<le> k" and "k < int (length (sprites st))"
  shows "sprites (delete_sprite st True) = delete_at (sprites st) (nat k) \<and>
         length (objects (delete_sprite st True)) = length (objects st) \<and>
         (\<forall>i < length (objects st).
            obj_name (objects (delete_sprite st True) ! i) = obj_name (objects st ! i) \<and>
            (sprite_index (objects st ! i) = Some k \<longrightarrow>
               sprite_index (objects (delete_sprite st True) ! i) = None) \<and>
            (\<forall>s. sprite_index (objects st ! i) = Some s \<and> s > k \<longrightarrow>
               sprite_index (objects (delete_sprite st True) ! i) = Some (s - 1)) \<and>
            (sprite_index (objects st ! i) = None \<or>
             (\<exists>s. sprite_index (objects st ! i) = Some s \<and> s < k) \<longrightarrow>
               sprite_index (objects (delete_sprite st True) ! i) =
                 sprite_index (objects st ! i)))"
  using assms
  by (auto simp: delete_sprite_def unlink_sprite_def split: option.splits)

theorem delete_sprite_cascade_witness:
  "selected_sprite_index example_project = Some 1 \<and>
   (1::int) < int (length (sprites example_project)) \<and>
   map sprite_index (objects example_project) = [Some 0, Some 1, Some 2, None] \<and>
   map sprite_name (sprites (delete_sprite example_project True)) = [''A'', ''C''] \<and>
   sprite_index (objects (delete_sprite example_project True) ! 0) = Some 0 \<and>
   sprite_index (objects (delete_sprite example_project True) ! 1) = None \<and>
   sprite_index (objects (delete_sprite example_project True) ! 2) = Some 1 \<and>
   sprite_index (objects (delete_sprite example_project True) ! 3) = None"
proof -
  have sel: "selected_sprite_index example_project = Some 1"
    and lo: "(0::int) \<le> 1"
    and hi: "(1::int) < int (length (sprites example_project))"
    by (simp_all add: example_project_def)
  have objs: "map sprite_index (objects example_project) = [Some 0, Some 1, Some 2, None]"
    and len: "length (objects example_project) = 4"
    and nth: "sprite_index (objects example_project ! 0) = Some 0"
      "sprite_index (objects example_project ! 1) = Some 1"
      "sprite_index (objects example_project ! 2) = Some 2"
      "sprite_index (objects example_project ! 3) = None"
    by (simp_all add: example_project_def)
  have sprs: "map sprite_name (delete_at (sprites example_project) (nat 1)) = [''A'', ''C'']"
    by (simp add: example_project_def delete_at_def Sprite_def)
  have lt: "0 < length (objects example_project)" "1 < length (objects example_project)"
    "2 < length (objects example_project)" "3 < length (objects example_project)"
    by (simp_all add: example_project_def)
  note c = delete_sprite_cascade[OF sel lo hi]
  note q = c[THEN conjunct2, THEN conjunct2, rule_format]
  from c q[OF lt(1)] q[OF lt(2)] q[OF lt(3)] q[OF lt(4)] sel hi objs sprs nth
  show ?thesis by simp
qed

text \<open>
  \<^bold>\<open>Claim C3.\<close>  When object type \<open>k\<close> is selected, \<open>k\<close> is a position of the object types
  and the deletion is confirmed, \<^verbatim>\<open>delete_object\<close> removes entry \<open>k\<close> of the object types,
  and the instance list of every level becomes the old list without the instances whose
  object index was \<open>k\<close>, in the old order, where an instance whose object index was
  greater than \<open>k\<close> has it decremented by one and every other instance is as it was.
\<close>

theorem delete_object_cascade:
  assumes "selected_object_index st = Some k"
    and "0 \<le> k" and "k < int (length (objects st))"
  shows "objects (delete_object st True) = delete_at (objects st) (nat k) \<and>
         length (levels (delete_object st True)) = length (levels st) \<and>
         (\<forall>i < length (levels st).
            instances (levels (delete_object st True) ! i) =
              map (\<lambda>inst. if object_index inst > k
                          then inst\<lparr>object_index := object_index inst - 1\<rparr> else inst)
                  (filter (\<lambda>inst. object_index inst \<noteq> k) (instances (levels st ! i))))"
  using assms
  by (auto simp: delete_object_def drop_object_instances_def shift_object_ref_def)

theorem delete_object_cascade_witness:
  "selected_object_index example_project = Some 1 \<and>
   (1::int) < int (length (objects example_project)) \<and>
   map object_index (instances (levels example_project ! 0)) = [0, 1, 2, 1] \<and>
   map obj_name (objects (delete_object example_project True)) = [''Hero'', ''Coin'', ''Ghost''] \<and>
   instances (levels (delete_object example_project True) ! 0) =
     [\<lparr>inst_x = 0, inst_y = 0, object_index = 0\<rparr>, \<lparr>inst_x = 64, inst_y = 0, object_index = 1\<rparr>] \<and>
   instances (levels (delete_object example_project True) ! 1) =
     [\<lparr>inst_x = 0, inst_y = 0, object_index = 1\<rparr>]"
proof -
  have sel: "selected_object_index example_project = Some 1"
    and lo: "(0::int) \<le> 1"
    and hi: "(1::int) < int (length (objects example_project))"
    by (simp_all add: example_project_def)
  have len: "length (levels example_project) = 2"
    and l0: "instances (levels example_project ! 0) =
       [\<lparr>inst_x = 0, inst_y = 0, object_index = 0\<rparr>, \<lparr>inst_x = 32, inst_y = 0, object_index = 1\<rparr>,
        \<lparr>inst_x = 64, inst_y = 0, object_index = 2\<rparr>, \<lparr>inst_x = 96, inst_y = 0, object_index = 1\<rparr>]"
    and l1: "instances (levels example_project ! 1) = [\<lparr>inst_x = 0, inst_y = 0, object_index = 2\<rparr>]"
    by (simp_all add: example_project_def)
  have objs: "map obj_name (delete_at (objects example_project) (nat 1)) = [''Hero'', ''Coin'', ''Ghost'']"
    by (simp add: example_project_def delete_at_def)
  have lt: "0 < length (levels example_project)" "1 < length (levels example_project)"
    by (simp_all add: example_project_def)
  note c = delete_object_cascade[OF sel lo hi]
  note q = c[THEN conjunct2, THEN conjunct2, rule_format]
  from c q[OF lt(1)] q[OF lt(2)] sel hi l0 l1 objs
  show ?thesis by simp
qed

lemma scenario_placed_eq:
  "scenario_placed decoded =
     Inr \<lparr>sprites = [], objects = [\<lparr>obj_name = ''Hero'', sprite_index = None\<rparr>],
          levels = [\<lparr>level_name = ''L1'', width = 640, height = 360, background_index = Some 0,
                     instances = [\<lparr>inst_x = 32, inst_y = 32, object_index = 0\<rparr>]\<rparr>],
          backgrounds = [BackgroundResource ''Sky'' ''color'' (Some (QColor 200 200 255 255))
                           None ''PNG'' True],
          selected_sprite_index = None, selected_object_index = Some 0,
          selected_level_index = Some 0, selected_background_index = None, grid_size = 32\<rparr>"
  by (simp add: scenario_placed_def empty_project_def add_background_def add_level_def
        add_object_def mousePressEvent_def get_current_level_def set_instances_def Level_def
        strip_examples Let_def)

text \<open>
  \<^bold>\<open>Claim C4.\<close>  When background \<open>k\<close> is selected, \<open>k\<close> is a position of the backgrounds and
  the deletion is confirmed, \<^verbatim>\<open>delete_background\<close> removes entry \<open>k\<close> of the backgrounds and
  keeps every level's instance list; a level whose background index was \<open>k\<close> gets \<^verbatim>\<open>None\<close>,
  one whose background index was greater than \<open>k\<close> gets it decremented by one, and every
  other level keeps its background index.  In the scenario (empty project, background
  "Sky", level "L1" which then refers to background 0, object type "Hero", one instance
  placed at (32, 32), background 0 deleted) the level's background index becomes \<^verbatim>\<open>None\<close> and
  its instance list is the one instance, as before the deletion.
\<close>

theorem delete_background_cascade:
  "(selected_background_index st = Some k \<and> 0 \<le> k \<and> k < int (length (backgrounds st)) \<longrightarrow>
      backgrounds (delete_background st True) = delete_at (backgrounds st) (nat k) \<and>
      length (levels (delete_background st True)) = length (levels st) \<and>
      (\<forall>i < length (levels st).
         instances (levels (delete_background st True) ! i) = instances (levels st ! i) \<and>
         (background_index (levels st ! i) = Some k \<longrightarrow>
            background_index (levels (delete_background st True) ! i) = None) \<and>
         (\<forall>b. background_index (levels st ! i) = Some b \<and> b > k \<longrightarrow>
            background_index (levels (delete_background st True) ! i) = Some (b - 1)) \<and>
         (background_index (levels st ! i) = None \<or>
          (\<exists>b. background_index (levels st ! i) = Some b \<and> b < k) \<longrightarrow>
            background_index (levels (delete_background st True) ! i) =
              background_index (levels st ! i)))) \<and>
   (case scenario_placed decoded of
      Inl e \<Rightarrow> False
    | Inr s4 \<Rightarrow>
        map level_name (levels s4) = [''L1''] \<and>
        map background_index (levels s4) = [Some 0] \<and>
        map instances (levels s4) = [[\<lparr>inst_x = 32, inst_y = 32, object_index = 0\<rparr>]] \<and>
        length (backgrounds s4) = 1) \<and>
   (case scenario decoded of
      Inl e \<Rightarrow> False
    | Inr s6 \<Rightarrow>
        map level_name (levels s6) = [''L1''] \<and>
        map background_index (levels s6) = [None] \<and>
        map instances (levels s6) = [[\<lparr>inst_x = 32, inst_y = 32, object_index = 0\<rparr>]] \<and>
        backgrounds s6 = [])"
proof (intro conjI impI)
  assume "selected_background_index st = Some k \<and> 0 \<le> k \<and> k < int (length (backgrounds st))"
  then show "backgrounds (delete_background st True) = delete_at (backgrounds st) (nat k)"
    and "length (levels (delete_background st True)) = length (levels st)"
    and "\<forall>i < length (levels st).
         instances (levels (delete_background st True) ! i) = instances (levels st ! i) \<and>
         (background_index (levels st ! i) = Some k \<longrightarrow>
            background_index (levels (delete_background st True) ! i) = None) \<and>
         (\<forall>b. background_index (levels st ! i) = Some b \<and> b > k \<longrightarrow>
            background_index (levels (delete_background st True) ! i) = Some (b - 1)) \<and>
         (background_index (levels st ! i) = None \<or>
          (\<exists>b. background_index (levels st ! i) = Some b \<and> b < k) \<longrightarrow>
            background_index (levels (delete_background st True) ! i) =
              background_index (levels st ! i))"
    by (auto simp: delete_background_def unlink_background_def split: option.splits)
next
  show "case scenario_placed decoded of
      Inl e \<Rightarrow> False
    | Inr s4 \<Rightarrow>
        map level_name (levels s4) = [''L1''] \<and>
        map background_index (levels s4) = [Some 0] \<and>
        map instances (levels s4) = [[\<lparr>inst_x = 32, inst_y = 32, object_index = 0\<rparr>]] \<and>
        length (backgrounds s4) = 1"
    by (simp add: scenario_placed_eq)
next
  show "case scenario decoded of
      Inl e \<Rightarrow> False
    | Inr s6 \<Rightarrow>
        map level_name (levels s6) = [''L1''] \<and>
        map background_index (levels s6) = [None] \<and>
        map instances (levels s6) = [[\<lparr>inst_x = 32, inst_y = 32, object_index = 0\<rparr>]] \<and>
        backgrounds s6 = []"
    by (simp add: scenario_def scenario_placed_eq on_background_selected_def
          delete_background_def unlink_background_def delete_at_def)
qed

theorem delete_background_cascade_witness:
  "selected_background_index example_project = Some 0 \<and>
   (0::int) < int (length (backgrounds example_project)) \<and>
   map background_index (levels example_project) = [Some 1, Some 0] \<and>
   map bg_name (backgrounds (delete_background example_project True)) = [''Night''] \<and>
   background_index (levels (delete_background example_project True) ! 0) = Some 0 \<and>
   background_index (levels (delete_background example_project True) ! 1) = None \<and>
   instances (levels (delete_background example_project True) ! 0) =
     instances (levels example_project ! 0) \<and>
   instances (levels (delete_background example_project True) ! 1) =
     instances (levels example_project ! 1)"
proof -
  have sel: "selected_background_index example_project = Some 0 \<and> (0::int) \<le> 0 \<and>
             (0::int) < int (length (backgrounds example_project))"
    by (simp add: example_project_def)
  have len: "length (levels example_project) = 2"
    and bi: "map background_index (levels example_project) = [Some 1, Some 0]"
      "background_index (levels example_project ! 0) = Some 1"
      "background_index (levels example_project ! 1) = Some 0"
    by (simp_all add: example_project_def)
  have bgs: "map bg_name (delete_at (backgrounds example_project) (nat 0)) = [''Night'']"
    by (simp add: example_project_def delete_at_def BackgroundResource_def)
  note c = delete_background_cascade[of example_project 0 "\<lambda>spr. (0, 0)",
      THEN conjunct1, THEN mp, OF sel]
  note q = c[THEN conjunct2, THEN conjunct2, rule_format]
  have lt: "0 < length (levels example_project)" "1 < length (levels example_project)"
    by (simp_all add: example_project_def)
  from c q[OF lt(1)] q[OF lt(2)] sel bi bgs
  show ?thesis by simp
qed

text \<open>
  \<^bold>\<open>Claim C10.\<close>  A delete of a background, a sprite or an object type that goes through (the
  selected index is a position of the collection and the deletion is confirmed) leaves
  the selection index of that collection \<^verbatim>\<open>None\<close>.
\<close>

theorem delete_clears_selection:
  "(selected_in (selected_background_index st) (backgrounds st) \<longrightarrow>
      selected_background_index (delete_background st True) = None) \<and>
   (selected_in (selected_sprite_index st) (sprites st) \<longrightarrow>
      selected_sprite_index (delete_sprite st True) = None) \<and>
   (selected_in (selected_object_index st) (objects st) \<longrightarrow>
      selected_object_index (delete_object st True) = None)"
  by (auto simp: selected_in_def delete_background_def delete_sprite_def delete_object_def
        split: option.splits)

theorem delete_clears_selection_witness:
  "selected_in (selected_background_index example_project) (backgrounds example_project) \<and>
   selected_in (selected_sprite_index example_project) (sprites example_project) \<and>
   selected_in (selected_object_index example_project) (objects example_project) \<and>
   selected_background_index (delete_background example_project True) = None \<and>
   selected_sprite_index (delete_sprite example_project True) = None \<and>
   selected_object_index (delete_object example_project True) = None \<and>
   length (backgrounds (delete_background example_project True)) = 1 \<and>
   length (sprites (delete_sprite example_project True)) = 2 \<and>
   length (objects (delete_object example_project True)) = 3"
proof -
  have sel: "selected_in (selected_background_index example_project) (backgrounds example_project)"
    "selected_in (selected_sprite_index example_project) (sprites example_project)"
    "selected_in (selected_object_index example_project) (objects example_project)"
    by (simp_all add: selected_in_def example_project_def)
  have len: "length (backgrounds (delete_background example_project True)) = 1"
    "length (sprites (delete_sprite example_project True)) = 2"
    "length (objects (delete_object example_project True)) = 3"
    by (simp_all add: example_project_def delete_background_def delete_sprite_def
          delete_object_def delete_at_def)
  from delete_clears_selection[of example_project] sel len show ?thesis by simp
qed

section \<open>Rejected input\<close>

text \<open>The resize dialog takes \<^verbatim>\<open>-1,100\<close>: both parts are integer literals, and the handler
  assigns them without looking at their sign.  Qt takes a negative size without an
  exception, so no warning follows.\<close>

theorem resize_negative_accepted:
  "get_current_level placed_project = Some 0 \<and>
   width (levels placed_project ! 0) = 640 \<and>
   height (levels placed_project ! 0) = 360 \<and>
   width (levels (fst (set_level_screen_size 4300 placed_project (Some ''-1,100''))) ! 0) = - 1 \<and>
   height (levels (fst (set_level_screen_size 4300 placed_project (Some ''-1,100''))) ! 0) = 100 \<and>
   snd (set_level_screen_size 4300 placed_project (Some ''-1,100'')) = None"
  by (simp add: set_level_screen_size_def parse_size_examples placed_project_def
        get_current_level_def refresh_canvas_def setFixedSize_def c_int_def)

text \<open>A width that does not fit a C \<^verbatim>\<open>int\<close> is assigned as well; the canvas then refuses it
  and the warning is shown, with the level already changed.\<close>

lemma resize_overflow_stored:
  "set_level_screen_size lim placed_project (Some ''2147483648,5'') =
     (wide_project, Some (Warning ''Invalid format.''))"
  by (simp add: set_level_screen_size_def parse_size_examples placed_project_def
        wide_project_def get_current_level_def refresh_canvas_def setFixedSize_def c_int_def)

text \<open>
  \<^bold>\<open>Claim C7, as the code has it.\<close>  A resize text that is not two comma-separated integer
  literals, as \<^verbatim>\<open>int\<close> reads them, leaves the whole project as it is, and the warning
  "Invalid format." is shown when a level is selected.  A text that is two integer
  literals is assigned to the selected level as given, whatever the sign of the numbers.
  When both numbers fit a C \<^verbatim>\<open>int\<close> no warning is shown; when one does not, the level keeps
  the new size all the same and the warning "Invalid format." is shown.  A rename to a
  name that is empty or only whitespace leaves the project as it is, for sprites,
  backgrounds, object types and levels; the rename handlers report nothing.
\<close>

theorem invalid_input_rejected:
  "(parse_size lim text = None \<longrightarrow>
      fst (set_level_screen_size lim st (Some text)) = st \<and>
      (get_current_level st \<noteq> None \<longrightarrow>
         snd (set_level_screen_size lim st (Some text)) = Some (Warning ''Invalid format.''))) \<and>
   (\<forall>w h k. parse_size lim text = Some (w, h) \<and> get_current_level st = Some k \<longrightarrow>
      fst (set_level_screen_size lim st (Some text)) =
        st\<lparr>levels := (levels st)[k := (levels st ! k)\<lparr>width := w, height := h\<rparr>]\<rparr> \<and>
      width (levels (fst (set_level_screen_size lim st (Some text))) ! k) = w \<and>
      height (levels (fst (set_level_screen_size lim st (Some text))) ! k) = h \<and>
      snd (set_level_screen_size lim st (Some text)) =
        (if c_int w \<and> c_int h then None else Some (Warning ''Invalid format.''))) \<and>
   (strip name = [] \<longrightarrow>
      rename_sprite st name ok = st \<and> rename_background st name ok = st \<and>
      rename_object st name ok = st \<and> rename_level st name ok = st)"
proof -
  have resize: "set_level_screen_size lim st (Some text) =
      (st\<lparr>levels := (levels st)[k := (levels st ! k)\<lparr>width := w, height := h\<rparr>]\<rparr>,
       if c_int w \<and> c_int h then None else Some (Warning ''Invalid format.''))"
    and size: "width ((levels st)[k := (levels st ! k)\<lparr>width := w, height := h\<rparr>] ! k) = w"
      "height ((levels st)[k := (levels st ! k)\<lparr>width := w, height := h\<rparr>] ! k) = h"
    if "parse_size lim text = Some (w, h)" "get_current_level st = Some k" for w h k
  proof -
    from that(2) have k: "k < length (levels st)" "selected_level_index st = Some (int k)"
      by (auto simp: get_current_level_def split: option.splits if_splits)
    let ?st = "st\<lparr>levels := (levels st)[k := (levels st ! k)\<lparr>width := w, height := h\<rparr>]\<rparr>"
    from k have "refresh_canvas ?st = setFixedSize w h"
      by (simp add: refresh_canvas_def get_current_level_def)
    with that show "set_level_screen_size lim st (Some text) =
      (?st, if c_int w \<and> c_int h then None else Some (Warning ''Invalid format.''))"
      by (simp add: set_level_screen_size_def setFixedSize_def Let_def)
    from k show "width ((levels st)[k := (levels st ! k)\<lparr>width := w, height := h\<rparr>] ! k) = w"
      "height ((levels st)[k := (levels st ! k)\<lparr>width := w, height := h\<rparr>] ! k) = h"
      by simp_all
  qed
  have bad: "fst (set_level_screen_size lim st (Some text)) = st \<and>
      (get_current_level st \<noteq> None \<longrightarrow>
         snd (set_level_screen_size lim st (Some text)) = Some (Warning ''Invalid format.''))"
    if "parse_size lim text = None"
    using that by (auto simp: set_level_screen_size_def split: option.splits)
  have blank: "rename_sprite st name ok = st \<and> rename_background st name ok = st \<and>
      rename_object st name ok = st \<and> rename_level st name ok = st"
    if "strip name = []"
    using that
    by (auto simp: rename_sprite_def rename_background_def rename_object_def rename_level_def
          split: option.splits)
  from resize size bad blank show ?thesis by simp
qed

theorem invalid_input_rejected_witness:
  "parse_size 4300 ''800x600'' = None \<and> get_current_level example_project = Some 0 \<and>
   set_level_screen_size 4300 example_project (Some ''800x600'') =
     (example_project, Some (Warning ''Invalid format.'')) \<and>
   parse_size 4300 ''800,600'' = Some (800, 600) \<and>
   width (levels (fst (set_level_screen_size 4300 example_project (Some ''800,600''))) ! 0) = 800 \<and>
   height (levels (fst (set_level_screen_size 4300 example_project (Some ''800,600''))) ! 0) = 600 \<and>
   snd (set_level_screen_size 4300 example_project (Some ''800,600'')) = None \<and>
   parse_size 4300 ''2147483648,5'' = Some (2147483648, 5) \<and>
   width (levels (fst (set_level_screen_size 4300 example_project (Some ''2147483648,5''))) ! 0) =
     2147483648 \<and>
   height (levels (fst (set_level_screen_size 4300 example_project (Some ''2147483648,5''))) ! 0) = 5 \<and>
   snd (set_level_screen_size 4300 example_project (Some ''2147483648,5'')) =
     Some (Warning ''Invalid format.'') \<and>
   strip ''  '' = [] \<and>
   rename_sprite example_project ''  '' True = example_project \<and>
   rename_background example_project ''  '' True = example_project \<and>
   rename_object example_project ''  '' True = example_project \<and>
   rename_level example_project ''  '' True = example_project \<and>
   sprite_name (sprites (rename_sprite example_project ''  '' True) ! 1) = ''B''"
proof -
  have cur: "get_current_level example_project = Some 0"
    "get_current_level example_project \<noteq> None"
    by (simp_all add: get_current_level_def example_project_def)
  have name: "sprite_name (sprites example_project ! 1) = ''B''"
    by (simp add: example_project_def Sprite_def)
  have fits: "c_int 800 \<and> c_int 600" "\<not> (c_int 2147483648 \<and> c_int 5)"
    by (simp_all add: c_int_def)
  note bad = invalid_input_rejected[of 4300 "''800x600''" example_project "''  ''" True,
      THEN conjunct1, THEN mp, OF parse_size_examples(3)]
  note good = invalid_input_rejected[of 4300 "''800,600''" example_project "''  ''" True,
      THEN conjunct2, THEN conjunct1, rule_format, of 800 600 0,
      OF conjI, OF parse_size_examples(2) cur(1), THEN conjunct2]
  note wide = invalid_input_rejected[of 4300 "''2147483648,5''" example_project "''  ''" True,
      THEN conjunct2, THEN conjunct1, rule_format, of 2147483648 5 0,
      OF conjI, OF parse_size_examples(5) cur(1), THEN conjunct2]
  note blank = invalid_input_rejected[of 4300 "''800x600''" example_project "''  ''" True,
      THEN conjunct2, THEN conjunct2, THEN mp, OF strip_examples(5)]
  from bad cur have r: "set_level_screen_size 4300 example_project (Some ''800x600'') =
     (example_project, Some (Warning ''Invalid format.''))"
    by (simp add: prod_eq_iff)
  from good fits(1)
  have g: "width (levels (fst (set_level_screen_size 4300 example_project (Some ''800,600''))) ! 0) = 800 \<and>
           height (levels (fst (set_level_screen_size 4300 example_project (Some ''800,600''))) ! 0) = 600 \<and>
           snd (set_level_screen_size 4300 example_project (Some ''800,600'')) = None"
    by simp
  from wide fits(2)
  have w: "width (levels (fst (set_level_screen_size 4300 example_project
                     (Some ''2147483648,5''))) ! 0) = 2147483648 \<and>
           height (levels (fst (set_level_screen_size 4300 example_project
                     (Some ''2147483648,5''))) ! 0) = 5 \<and>
           snd (set_level_screen_size 4300 example_project (Some ''2147483648,5'')) =
             Some (Warning ''Invalid format.'')"
    by simp
  from r g w blank cur name parse_size_examples[of 4300] strip_examples show ?thesis by simp
qed

section \<open>Hit testing\<close>

text \<open>What the scan of \<^verbatim>\<open>mousePressEvent\<close> returns: the last position whose instance contains
  the point, when no call of \<^verbatim>\<open>contains_point\<close> from the end down to it raises.\<close>

lemma hit_scan_Some:
  "hit_scan decoded px py objs sprs insts n = Inr (Some i) \<Longrightarrow>
     i < n \<and> contains_point decoded (insts ! i) px py objs sprs = Inr True \<and>
     (\<forall>j. i < j \<and> j < n \<longrightarrow> contains_point decoded (insts ! j) px py objs sprs = Inr False)"
proof (induction n)
  case 0
  then show ?case by simp
next
  case (Suc n)
  show ?case
  proof (cases "contains_point decoded (insts ! n) px py objs sprs")
    case (Inl e)
    with Suc.prems show ?thesis by simp
  next
    case (Inr b)
    show ?thesis
    proof (cases b)
      case True
      with Inr Suc.prems show ?thesis by auto
    next
      case False
      with Inr Suc.prems have "hit_scan decoded px py objs sprs insts n = Inr (Some i)" by simp
      from Suc.IH[OF this] Inr False show ?thesis
        by (auto simp: less_Suc_eq)
    qed
  qed
qed

lemma hit_scan_None:
  "hit_scan decoded px py objs sprs insts n = Inr None \<Longrightarrow>
     (\<forall>j < n. contains_point decoded (insts ! j) px py objs sprs = Inr False)"
proof (induction n)
  case 0
  then show ?case by simp
next
  case (Suc n)
  then show ?case
    by (cases "contains_point decoded (insts ! n) px py objs sprs")
       (auto simp: less_Suc_eq split: bool.splits if_splits)
qed

text \<open>The scan returns when every call of \<^verbatim>\<open>contains_point\<close> does.\<close>

lemma hit_scan_returns:
  assumes "\<forall>j < n. \<exists>b. contains_point decoded (insts ! j) px py objs sprs = Inr b"
  shows "\<exists>r. hit_scan decoded px py objs sprs insts n = Inr r"
  using assms
proof (induction n)
  case 0
  then show ?case by simp
next
  case (Suc n)
  then obtain b where "contains_point decoded (insts ! n) px py objs sprs = Inr b" by auto
  with Suc show ?case by (cases b) auto
qed

text \<open>With all indices in range, an instance is hit exactly on the closed rectangle of its
  sprite's pixmap.\<close>

lemma contains_point_rectangle:
  assumes "0 \<le> object_index inst" "object_index inst < int (length objs)"
    and "sprite_index (objs ! nat (object_index inst)) = Some si"
    and "0 \<le> si" "si < int (length sprs)"
  shows "contains_point decoded inst px py objs sprs =
           Inr (inst_x inst \<le> px \<and> px \<le> inst_x inst + fst (pixmap_size decoded (sprs ! nat si)) \<and>
                inst_y inst \<le> py \<and> py \<le> inst_y inst + snd (pixmap_size decoded (sprs ! nat si)))"
  using assms by (auto simp: contains_point_def py_getitem_def split: prod.splits)

text \<open>An object type without a sprite, or with a sprite index past the end of the sprites,
  is never hit.\<close>

lemma contains_point_no_sprite:
  assumes "0 \<le> object_index inst" "object_index inst < int (length objs)"
    and "sprite_index (objs ! nat (object_index inst)) = None \<or>
         (\<exists>si. sprite_index (objs ! nat (object_index inst)) = Some si \<and> si \<ge> int (length sprs))"
  shows "contains_point decoded inst px py objs sprs = Inr False"
  using assms by (auto simp: contains_point_def py_getitem_def)

text \<open>A negative sprite index as far back as the sprites go is looked up from the end of
  the list.\<close>

lemma contains_point_negative:
  assumes "0 \<le> object_index inst" "object_index inst < int (length objs)"
    and "sprite_index (objs ! nat (object_index inst)) = Some si"
    and "si < 0" "- int (length sprs) \<le> si"
  shows "contains_point decoded inst px py objs sprs =
           Inr (inst_x inst \<le> px \<and>
                px \<le> inst_x inst + fst (pixmap_size decoded (sprs ! nat (int (length sprs) + si))) \<and>
                inst_y inst \<le> py \<and>
                py \<le> inst_y inst + snd (pixmap_size decoded (sprs ! nat (int (length sprs) + si))))"
  using assms by (auto simp: contains_point_def py_getitem_def split: prod.splits)

text \<open>
  \<^bold>\<open>Claim C9, where the code departs from it.\<close>  In \<open>ghost_project\<close> the level's one instance
  refers to object type 0, a valid foreign key, and that object type has sprite index
  \<open>-1\<close>, which is out of range for the one sprite.  \<^verbatim>\<open>contains_point\<close> tests only
  \<^verbatim>\<open>sprite_index >= len(sprites)\<close>, so \<^verbatim>\<open>sprites[-1]\<close> is the sprite and its blank 40 by 40
  pixmap makes the instance a hit at (5, 5); a right click there deletes it.
  \<^verbatim>\<open>paintEvent\<close> tests \<^verbatim>\<open>0 <= obj.sprite_index < len(sprites)\<close> and does not draw it.
\<close>

theorem negative_sprite_index_is_hit:
  "instances (levels ghost_project ! 0) = [\<lparr>inst_x = 0, inst_y = 0, object_index = 0\<rparr>] \<and>
   sprite_index (objects ghost_project ! 0) = Some (- 1) \<and>
   length (sprites ghost_project) = 1 \<and>
   contains_point (\<lambda>spr. (0, 0)) \<lparr>inst_x = 0, inst_y = 0, object_index = 0\<rparr> 5 5
     (objects ghost_project) (sprites ghost_project) = Inr True \<and>
   paint_finds_sprite \<lparr>inst_x = 0, inst_y = 0, object_index = 0\<rparr>
     (objects ghost_project) (sprites ghost_project) = Inr False \<and>
   mousePressEvent (\<lambda>spr. (0, 0)) ghost_project RightButton 5 5 =
     Inr (ghost_project\<lparr>levels := [\<lparr>level_name = ''L1'', width = 640, height = 360,
                                      background_index = None, instances = []\<rparr>]\<rparr>)"
  by (simp add: ghost_project_def contains_point_def paint_finds_sprite_def py_getitem_def
        pixmap_size_def Sprite_def mousePressEvent_def get_current_level_def set_instances_def
        delete_at_def)

text \<open>On a project with referential integrity no call of \<^verbatim>\<open>contains_point\<close> raises, so the
  scan returns: either no position, or the topmost instance under the point.\<close>

lemma contains_point_returns:
  assumes "instance_ok (length objs) inst" "list_all (object_ok (length sprs)) objs"
  shows "\<exists>b. contains_point decoded inst px py objs sprs = Inr b"
proof -
  from assms(1) have "nat (object_index inst) < length objs"
    by (simp add: instance_ok_def nat_less_iff)
  with assms(2) have "object_ok (length sprs) (objs ! nat (object_index inst))"
    by (simp add: list_all_length)
  with assms(1) show ?thesis
    by (auto simp: contains_point_def py_getitem_def instance_ok_def object_ok_def ref_ok_def
          split: option.splits prod.splits)
qed

lemma hit_scan_integrity:
  assumes "integrity st" "k < length (levels st)"
  shows "\<exists>r. hit_scan decoded px py (objects st) (sprites st) (instances (levels st ! k))
               (length (instances (levels st ! k))) = Inr r"
proof (rule hit_scan_returns, intro allI impI)
  fix j assume j: "j < length (instances (levels st ! k))"
  from assms have "level_ok (length (backgrounds st)) (length (objects st)) (levels st ! k)"
    by (simp add: integrity_def list_all_length)
  with j have "instance_ok (length (objects st)) (instances (levels st ! k) ! j)"
    by (simp add: level_ok_def list_all_length)
  moreover from assms(1) have "list_all (object_ok (length (sprites st))) (objects st)"
    by (simp add: integrity_def)
  ultimately show "\<exists>b. contains_point decoded (instances (levels st ! k) ! j) px py
                         (objects st) (sprites st) = Inr b"
    by (rule contains_point_returns)
qed

text \<open>Of two instances of the same object type placed on the same spot, the one placed
  later is the one a click picks.\<close>

lemma later_instance_wins:
  "hit_scan decoded 10 10 [\<lparr>obj_name = ''Hero'', sprite_index = Some 0\<rparr>]
     [Sprite ''A'' None ''PNG'']
     [\<lparr>inst_x = 0, inst_y = 0, object_index = 0\<rparr>, \<lparr>inst_x = 8, inst_y = 8, object_index = 0\<rparr>] 2 =
     Inr (Some 1)"
  by (simp add: numeral_2_eq_2 contains_point_def py_getitem_def pixmap_size_def Sprite_def)

text \<open>Both edges of the rectangle count: with a 40 by 40 pixmap at (0, 0), the points (0, 0)
  and (40, 40) are hits and (41, 40) is not.\<close>

lemma rectangle_edges:
  "contains_point decoded \<lparr>inst_x = 0, inst_y = 0, object_index = 0\<rparr> 0 0
     [\<lparr>obj_name = ''Hero'', sprite_index = Some 0\<rparr>] [Sprite ''A'' None ''PNG''] = Inr True"
  "contains_point decoded \<lparr>inst_x = 0, inst_y = 0, object_index = 0\<rparr> 40 40
     [\<lparr>obj_name = ''Hero'', sprite_index = Some 0\<rparr>] [Sprite ''A'' None ''PNG''] = Inr True"
  "contains_point decoded \<lparr>inst_x = 0, inst_y = 0, object_index = 0\<rparr> 41 40
     [\<lparr>obj_name = ''Hero'', sprite_index = Some 0\<rparr>] [Sprite ''A'' None ''PNG''] = Inr False"
  by (simp_all add: contains_point_def py_getitem_def pixmap_size_def Sprite_def)

text \<open>A mouse press keeps referential integrity as long as the selected object type, which
  a placement copies into the new instance, is \<^verbatim>\<open>None\<close> or a position of the object types.\<close>

lemma list_all_move_to_end:
  "list_all P xs \<Longrightarrow> i < length xs \<Longrightarrow> list_all P (delete_at xs i @ [xs ! i])"
  using set_delete_at[of xs i] by (auto simp: list_all_iff)

lemma integrity_set_instances:
  assumes "integrity st" "k < length (levels st)"
    and "list_all (instance_ok (length (objects st))) insts"
  shows "integrity (set_instances st k insts)"
proof -
  from assms(1,2) have "level_ok (length (backgrounds st)) (length (objects st)) (levels st ! k)"
    by (simp add: integrity_def list_all_length)
  with assms(3)
  have "level_ok (length (backgrounds st)) (length (objects st))
          ((levels st ! k)\<lparr>instances := insts\<rparr>)"
    by (simp add: level_ok_def)
  with assms(1) show ?thesis
    by (auto simp: integrity_def set_instances_def list_all_iff dest!: set_update_cases)
qed

lemma integrity_mousePressEvent:
  assumes "integrity st" "ref_ok (selected_object_index st) (length (objects st))"
    and "mousePressEvent decoded st button ex ey = Inr st'"
  shows "integrity st'"
proof (cases "get_current_level st")
  case None
  with assms show ?thesis by (simp add: mousePressEvent_def)
next
  case (Some k)
  then have k: "k < length (levels st)"
    by (auto simp: get_current_level_def split: option.splits if_splits)
  let ?insts = "instances (levels st ! k)"
  from assms(1) k have ok: "list_all (instance_ok (length (objects st))) ?insts"
    by (simp add: integrity_def list_all_length level_ok_def)
  show ?thesis
  proof (cases "hit_scan decoded ex ey (objects st) (sprites st) ?insts (length ?insts)")
    case (Inl e)
    with assms Some show ?thesis
      by (cases button) (simp_all add: mousePressEvent_def)
  next
    case (Inr r)
    show ?thesis
    proof (cases r)
      case None
      show ?thesis
      proof (cases button)
        case LeftButton
        show ?thesis
        proof (cases "selected_object_index st")
          case None
          with assms Some Inr \<open>r = None\<close> LeftButton show ?thesis
            by (simp add: mousePressEvent_def)
        next
          case (Some sel)
          with assms(2) have "instance_ok (length (objects st))
              \<lparr>inst_x = (ex div grid_size st) * grid_size st,
               inst_y = (ey div grid_size st) * grid_size st, object_index = sel\<rparr>"
            by (simp add: ref_ok_def instance_ok_def)
          with ok have "list_all (instance_ok (length (objects st)))
              (?insts @ [\<lparr>inst_x = (ex div grid_size st) * grid_size st,
                          inst_y = (ey div grid_size st) * grid_size st, object_index = sel\<rparr>])"
            by simp
          from integrity_set_instances[OF assms(1) k this]
            assms(3) \<open>get_current_level st = Some k\<close> Inr \<open>r = None\<close> LeftButton Some
          show ?thesis by (simp add: mousePressEvent_def Let_def)
        qed
      next
        case RightButton
        with assms Some Inr None show ?thesis by (simp add: mousePressEvent_def)
      next
        case OtherButton
        with assms Some show ?thesis by (simp add: mousePressEvent_def)
      qed
    next
      case (Some i)
      with Inr hit_scan_Some have i: "i < length ?insts" by blast
      show ?thesis
      proof (cases button)
        case LeftButton
        from integrity_set_instances[OF assms(1) k list_all_move_to_end[OF ok i]]
          assms(3) \<open>get_current_level st = Some k\<close> Inr Some LeftButton
        show ?thesis by (simp add: mousePressEvent_def Let_def)
      next
        case RightButton
        from integrity_set_instances[OF assms(1) k list_all_delete_at[OF ok, of i]]
          assms(3) \<open>get_current_level st = Some k\<close> Inr Some RightButton
        show ?thesis by (simp add: mousePressEvent_def Let_def)
      next
        case OtherButton
        with assms \<open>get_current_level st = Some k\<close> show ?thesis
          by (simp add: mousePressEvent_def)
      qed
    qed
  qed
qed

section \<open>Base64 round trip\<close>

lemma b64_value_char: "n < 64 \<Longrightarrow> b64_value (b64_char n) = Some n"
  by (auto simp: b64_value_def b64_char_def Let_def)

lemma b64_char_not_pad: "n < 64 \<Longrightarrow> b64_char n \<noteq> CHR ''=''"
proof
  assume n: "n < 64" and eq: "b64_char n = CHR ''=''"
  from eq have "(of_char (b64_char n) :: nat) = of_char CHR ''=''" by simp
  with n show False by (auto simp: b64_char_def split: if_splits)
qed

lemma unat_byte: "unat (w :: 8 word) < 256"
  using unsigned_less[of w, where ?'a = nat] by simp

lemma sextet1_less: "x < 256 \<Longrightarrow> sextet1 x < 64"
  unfolding sextet1_def by arith

lemma sextet2_less: "y < 256 \<Longrightarrow> sextet2 x y < 64"
  unfolding sextet2_def by arith

lemma sextet3_less: "z < 256 \<Longrightarrow> sextet3 y z < 64"
  unfolding sextet3_def by arith

lemma sextet4_less: "sextet4 z < 64"
  unfolding sextet4_def by arith

lemma octet1_sextets: "y < 256 \<Longrightarrow> octet1 (sextet1 x) (sextet2 x y) = of_nat x"
proof -
  assume "y < 256"
  then have "y div 16 < 16" by arith
  then have "((x mod 4) * 16 + y div 16) div 16 = x mod 4" by simp
  then have "x div 4 * 4 + ((x mod 4) * 16 + y div 16) div 16 = x" by simp
  then show ?thesis unfolding octet1_def sextet1_def sextet2_def by simp
qed

lemma octet2_sextets:
  assumes "y < 256" "z < 256"
  shows "octet2 (sextet2 x y) (sextet3 y z) = of_nat y"
proof -
  have y: "y div 16 < 16" using assms by arith
  then have a: "((x mod 4) * 16 + y div 16) mod 16 = y div 16" by simp
  have "z div 64 < 4" using assms by arith
  then have b: "((y mod 16) * 4 + z div 64) div 4 = y mod 16" by simp
  have "(((x mod 4) * 16 + y div 16) mod 16) * 16 + ((y mod 16) * 4 + z div 64) div 4 = y"
    unfolding a b by simp
  then show ?thesis unfolding octet2_def sextet2_def sextet3_def by simp
qed

lemma octet3_sextets:
  assumes "z < 256"
  shows "octet3 (sextet3 y z) (sextet4 z) = of_nat z"
proof -
  have "z div 64 < 4" using assms by arith
  then have a: "((y mod 16) * 4 + z div 64) mod 4 = z div 64" by simp
  have "(((y mod 16) * 4 + z div 64) mod 4) * 64 + z mod 64 = z"
    unfolding a by simp
  then show ?thesis unfolding octet3_def sextet3_def sextet4_def by simp
qed

lemma b64decode_b64encode: "b64decode (b64encode bs) = Some bs"
proof (induction bs rule: b64encode.induct)
  case 1
  show ?case by simp
next
  case (2 a)
  show ?case
    by (simp add: b64_value_char sextet1_less sextet2_less unat_byte octet1_sextets)
next
  case (3 a b)
  show ?case
    by (simp add: b64_value_char b64_char_not_pad sextet1_less sextet2_less sextet3_less
          unat_byte octet1_sextets octet2_sextets)
next
  case (4 a b c rest)
  show ?case
    by (simp add: b64_value_char b64_char_not_pad sextet1_less sextet2_less sextet3_less
          sextet4_less unat_byte octet1_sextets octet2_sextets octet3_sextets "4.IH")
qed

lemma b64encode_nonempty: "bs \<noteq> [] \<Longrightarrow> b64encode bs \<noteq> []"
  by (induction bs rule: b64encode.induct) simp_all

lemma codec_ok_b64: "codec_ok b64encode b64decode"
  by (simp add: codec_ok_def b64decode_b64encode b64encode_nonempty)

lemma b64encode_Man: "b64encode [0x4D, 0x61, 0x6E] = ''TWFu''"
  by code_simp

section \<open>Saving and opening\<close>

subsection \<open>Each entry comes back\<close>

lemma load_entries_map:
  assumes "\<And>x. x \<in> set xs \<Longrightarrow> build (f x) = Inr x"
  shows "load_entries build (map f xs) acc = (acc @ xs, None)"
  using assms by (induction xs arbitrary: acc) auto

lemma load_instances_map:
  assumes "list_all (instance_ok n) insts"
  shows "load_instances n (map instance_to_dict insts) acc = Inr (acc @ insts)"
  using assms
  by (induction insts arbitrary: acc) (auto simp: instance_to_dict_def instance_ok_def)

lemma decode_encode_img_bytes:
  assumes "codec_ok enc dec" "payload_ok b"
  shows "decode_img_bytes dec (encode_img_bytes enc b) = Inr b"
  using assms
  by (auto simp: codec_ok_def payload_ok_def decode_img_bytes_def encode_img_bytes_def
        split: option.splits)

lemma QColor_channels:
  "QColor (uint (red c)) (uint (green c)) (uint (blue c)) (uint (alpha c)) = c"
proof -
  have "channel_ok (uint w)" for w :: "8 word"
    using uint_lt2p[of w] by (simp add: channel_ok_def)
  then show ?thesis by (cases c) (simp add: QColor_def)
qed

lemma QColor_args_channels:
  "QColor_args (uint (red c)) (uint (green c)) (uint (blue c)) (uint (alpha c)) = Inr c"
proof -
  have "c_int (uint w)" for w :: "8 word"
  proof -
    have "0 \<le> uint w" "uint w < 256" using uint_lt2p[of w] by simp_all
    then show ?thesis unfolding c_int_def by linarith
  qed
  then show ?thesis by (simp add: QColor_args_def QColor_channels)
qed

lemma sprite_from_to_dict:
  assumes "codec_ok enc dec" "payload_ok (sprite_img_bytes spr)"
  shows "sprite_from_dict dec (sprite_to_dict enc spr) = Inr spr"
  using decode_encode_img_bytes[OF assms]
  by (simp add: sprite_from_dict_def sprite_to_dict_def Sprite_def)

lemma background_from_to_dict:
  assumes "codec_ok enc dec" "payload_ok (bg_img_bytes bg)"
  shows "background_from_dict dec (background_to_dict enc bg) = Inr bg"
  using decode_encode_img_bytes[OF assms]
  by (simp add: background_from_dict_def background_to_dict_def BackgroundResource_def
        QColor_args_channels)

lemma object_from_to_dict: "object_from_dict (object_to_dict obj) = Inr obj"
  by (simp add: object_from_dict_def object_to_dict_def)

lemma level_from_to_dict:
  assumes "list_all (instance_ok n) (instances lvl)"
  shows "level_from_dict n (level_to_dict lvl) = Inr lvl"
  using load_instances_map[OF assms, of "[]"]
  by (simp add: level_from_dict_def level_to_dict_def Level_def)

subsection \<open>Stage errors\<close>

text \<open>Whether a stage fails depends on the file alone, for backgrounds, sprites and object
  types.\<close>

lemma load_backgrounds_error: "snd (load_backgrounds dec st data) = snd (load_backgrounds dec st' data)"
  by (auto simp: load_backgrounds_def split: option.splits prod.splits)

lemma load_sprites_error: "snd (load_sprites dec st data) = snd (load_sprites dec st' data)"
  by (auto simp: load_sprites_def split: option.splits prod.splits)

lemma load_objects_error: "snd (load_objects st data) = snd (load_objects st' data)"
  by (auto simp: load_objects_def split: option.splits prod.splits)

subsection \<open>Save, then open\<close>

lemma placed_project_reached:
  "mousePressEvent decoded initial_project LeftButton 40 40 = Inr placed_project"
  by (simp add: initial_project_def empty_project_def placed_project_def add_background_def
        add_level_def add_object_def add_sprite_def mousePressEvent_def get_current_level_def
        set_instances_def Level_def Let_def)

text \<open>The project the editor starts with, after one instance has been placed, has one
  entry in every collection, one instance in its level and no background selected.  Saved
  and opened again, it comes back with background 0 selected.\<close>

theorem roundtrip_selects_background:
  "length (backgrounds placed_project) = 1 \<and> length (sprites placed_project) = 1 \<and>
   length (objects placed_project) = 1 \<and> length (levels placed_project) = 1 \<and>
   length (instances (levels placed_project ! 0)) = 1 \<and>
   selected_background_index placed_project = None \<and>
   open_project b64decode placed_project (JsonFile (save_project b64encode placed_project)) =
     (placed_project\<lparr>selected_background_index := Some 0\<rparr>, Opened)"
proof -
  have "open_project b64decode placed_project (JsonFile (save_project b64encode placed_project)) =
     (placed_project\<lparr>selected_background_index := Some 0\<rparr>, Opened)"
    by (simp add: placed_project_def open_project_def save_project_def load_backgrounds_def
          load_sprites_def load_objects_def load_levels_def load_selection_def
          select_row_def setCurrentRow_def refresh_canvas_def setFixedSize_def c_int_def
          get_current_level_def QColor_args_def
          background_to_dict_def background_from_dict_def sprite_to_dict_def
          sprite_from_dict_def object_to_dict_def object_from_dict_def level_to_dict_def
          level_from_dict_def instance_to_dict_def encode_img_bytes_def decode_img_bytes_def
          Sprite_def BackgroundResource_def Level_def QColor_def channel_ok_def Let_def)
  then show ?thesis by (simp add: placed_project_def)
qed

text \<open>A level whose width does not fit a C \<^verbatim>\<open>int\<close> is saved as it is.  When the file is
  opened, everything is rebuilt, and the closing \<^verbatim>\<open>refresh_canvas\<close> then raises inside the
  \<^verbatim>\<open>try\<close> block: the load is reported as failed.\<close>

lemma wide_project_not_reopened:
  "open_project b64decode placed_project (JsonFile (save_project b64encode wide_project)) =
     (wide_project\<lparr>selected_background_index := Some 0\<rparr>, Failed OverflowError)"
  by (simp add: wide_project_def placed_project_def open_project_def save_project_def
        load_backgrounds_def load_sprites_def load_objects_def load_levels_def
        load_selection_def select_row_def setCurrentRow_def refresh_canvas_def
        setFixedSize_def c_int_def get_current_level_def QColor_args_def
        background_to_dict_def background_from_dict_def sprite_to_dict_def
        sprite_from_dict_def object_to_dict_def object_from_dict_def level_to_dict_def
        level_from_dict_def instance_to_dict_def encode_img_bytes_def decode_img_bytes_def
        Sprite_def BackgroundResource_def Level_def QColor_def channel_ok_def Let_def)

text \<open>Two more things do not come back: image bytes of length zero are saved as \<^verbatim>\<open>null\<close>, and
  an instance whose object index is not a position of the object types is skipped when
  the level is read.\<close>

lemma empty_payload_not_restored:
  "sprite_from_dict dec (sprite_to_dict enc (Sprite ''S'' (Some []) ''PNG'')) =
     Inr (Sprite ''S'' None ''PNG'')"
  by (simp add: sprite_from_dict_def sprite_to_dict_def Sprite_def encode_img_bytes_def
        decode_img_bytes_def)

lemma dangling_instance_dropped:
  "level_from_dict 1
     (level_to_dict \<lparr>level_name = ''L'', width = 1, height = 1, background_index = None,
                     instances = [\<lparr>inst_x = 0, inst_y = 0, object_index = 5\<rparr>]\<rparr>) =
     Inr \<lparr>level_name = ''L'', width = 1, height = 1, background_index = None, instances = []\<rparr>"
  by (simp add: level_from_dict_def level_to_dict_def instance_to_dict_def Level_def)

lemma refresh_canvas_fits: "list_all size_fits (levels st) \<Longrightarrow> refresh_canvas st = None"
  by (auto simp: refresh_canvas_def get_current_level_def setFixedSize_def size_fits_def
        c_int_def list_all_length split: option.splits if_splits)

text \<open>
  \<^bold>\<open>Claim C5, as the code has it.\<close>  Let every instance of the document refer to a position of
  its object types, let no image payload be bytes of length zero, let every level's width
  and height and every selection index that is set for a collection with an entry fit a
  C \<^verbatim>\<open>int\<close>, and let Base64 decoding undo Base64 encoding.  Then opening what was saved
  succeeds and the editor holds the document's backgrounds, sprites, object types and
  levels, equal entry by entry (names, modes, the four channels of a colour, formats,
  flags, sizes, indices, instance lists and image bytes).  Each of the three saved
  selection indices comes back as it was, except that one which was \<^verbatim>\<open>None\<close> comes back as 0
  when its collection is not empty.  The selected sprite is not saved: the editor keeps
  the one it had.
\<close>

theorem save_open_roundtrip:
  assumes codec_ok: "codec_ok enc dec"
    and sprs_ok: "list_all (\<lambda>spr. payload_ok (sprite_img_bytes spr)) (sprites doc)"
    and bgs_ok: "list_all (\<lambda>bg. payload_ok (bg_img_bytes bg)) (backgrounds doc)"
    and insts_ok: "list_all (\<lambda>lvl. list_all (instance_ok (length (objects doc))) (instances lvl))
           (levels doc)"
    and sizes_ok: "list_all size_fits (levels doc)"
    and rows_ok: "row_fits (levels doc) (selected_level_index doc)"
      "row_fits (objects doc) (selected_object_index doc)"
      "row_fits (backgrounds doc) (selected_background_index doc)"
  shows "open_project dec st (JsonFile (save_project enc doc)) =
           (st\<lparr>sprites := sprites doc, objects := objects doc, levels := levels doc,
               backgrounds := backgrounds doc,
               selected_object_index :=
                 (case selected_object_index doc of
                    None \<Rightarrow> if objects doc = [] then None else Some 0
                  | Some i \<Rightarrow> Some i),
               selected_level_index :=
                 (case selected_level_index doc of
                    None \<Rightarrow> if levels doc = [] then None else Some 0
                  | Some i \<Rightarrow> Some i),
               selected_background_index :=
                 (case selected_background_index doc of
                    None \<Rightarrow> if backgrounds doc = [] then None else Some 0
                  | Some i \<Rightarrow> Some i)\<rparr>, Opened)"
proof -
  let ?data = "save_project enc doc"
  let ?s1 = "st\<lparr>backgrounds := backgrounds doc\<rparr>"
  let ?s2 = "?s1\<lparr>sprites := sprites doc\<rparr>"
  let ?s3 = "?s2\<lparr>objects := objects doc\<rparr>"
  let ?s4 = "?s3\<lparr>levels := levels doc\<rparr>"
  let ?s5 = "st\<lparr>sprites := sprites doc, objects := objects doc, levels := levels doc,
               backgrounds := backgrounds doc,
               selected_object_index :=
                 (case selected_object_index doc of
                    None \<Rightarrow> if objects doc = [] then None else Some 0
                  | Some i \<Rightarrow> Some i),
               selected_level_index :=
                 (case selected_level_index doc of
                    None \<Rightarrow> if levels doc = [] then None else Some 0
                  | Some i \<Rightarrow> Some i),
               selected_background_index :=
                 (case selected_background_index doc of
                    None \<Rightarrow> if backgrounds doc = [] then None else Some 0
                  | Some i \<Rightarrow> Some i)\<rparr>"
  have b: "load_backgrounds dec st ?data = (?s1, None)"
    using bgs_ok
    by (simp add: load_backgrounds_def save_project_def list_all_iff
          load_entries_map[where acc="[]", simplified] background_from_to_dict[OF codec_ok])
  have s: "load_sprites dec ?s1 ?data = (?s2, None)"
    using sprs_ok
    by (simp add: load_sprites_def save_project_def list_all_iff
          load_entries_map[where acc="[]", simplified] sprite_from_to_dict[OF codec_ok])
  have ob: "load_objects ?s2 ?data = (?s3, None)"
    by (simp add: load_objects_def save_project_def
          load_entries_map[where acc="[]", simplified] object_from_to_dict)
  have l: "load_levels ?s3 ?data = (?s4, None)"
    using insts_ok
    by (simp add: load_levels_def save_project_def list_all_iff
          load_entries_map[where acc="[]", simplified] level_from_to_dict)
  have row: "select_row xs idx =
      ((case idx of None \<Rightarrow> if xs = [] then None else Some 0 | Some i \<Rightarrow> Some i), None)"
    if "row_fits xs idx" for xs :: "'x list" and idx
    using that
    by (auto simp: select_row_def setCurrentRow_def row_fits_def c_int_def split: option.splits)
  have sel: "load_selection ?s4 ?data = (?s5, None)"
    by (simp add: load_selection_def save_project_def Let_def row[OF rows_ok(1)]
          row[OF rows_ok(2)] row[OF rows_ok(3)])
  have canvas: "refresh_canvas ?s5 = None"
    using sizes_ok by (simp add: refresh_canvas_fits)
  show ?thesis
    by (simp add: open_project_def b s ob l sel canvas)
qed

theorem save_open_roundtrip_witness:
  "codec_ok b64encode b64decode \<and>
   list_all (\<lambda>spr. payload_ok (sprite_img_bytes spr)) (sprites example_project) \<and>
   list_all (\<lambda>bg. payload_ok (bg_img_bytes bg)) (backgrounds example_project) \<and>
   list_all (\<lambda>lvl. list_all (instance_ok (length (objects example_project))) (instances lvl))
     (levels example_project) \<and>
   list_all size_fits (levels example_project) \<and>
   row_fits (levels example_project) (selected_level_index example_project) \<and>
   row_fits (objects example_project) (selected_object_index example_project) \<and>
   row_fits (backgrounds example_project) (selected_background_index example_project) \<and>
   sprite_img_bytes (sprites example_project ! 1) = Some [0x4D, 0x61, 0x6E] \<and>
   open_project b64decode example_project (JsonFile (save_project b64encode example_project)) =
     (example_project, Opened)"
proof -
  have sprs: "list_all (\<lambda>spr. payload_ok (sprite_img_bytes spr)) (sprites example_project)"
    and bgs: "list_all (\<lambda>bg. payload_ok (bg_img_bytes bg)) (backgrounds example_project)"
    and insts: "list_all (\<lambda>lvl. list_all (instance_ok (length (objects example_project)))
                  (instances lvl)) (levels example_project)"
    and bytes: "sprite_img_bytes (sprites example_project ! 1) = Some [0x4D, 0x61, 0x6E]"
    by (simp_all add: example_project_def payload_ok_def instance_ok_def Sprite_def
          BackgroundResource_def)
  have sizes: "list_all size_fits (levels example_project)"
    and rows: "row_fits (levels example_project) (selected_level_index example_project)"
      "row_fits (objects example_project) (selected_object_index example_project)"
      "row_fits (backgrounds example_project) (selected_background_index example_project)"
    by (simp_all add: example_project_def size_fits_def row_fits_def c_int_def)
  have "open_project b64decode example_project
          (JsonFile (save_project b64encode example_project)) = (example_project, Opened)"
    unfolding save_open_roundtrip[OF codec_ok_b64 sprs bgs insts sizes rows]
    by (simp add: example_project_def)
  with codec_ok_b64 sprs bgs insts sizes rows bytes show ?thesis by simp
qed
subsection \<open>A load that fails\<close>



text \<open>When every entry of a list can be built, \<open>built\<close> is the list of all the entries
  built.\<close>

lemma built_complete:
  "list_all (\<lambda>d. \<not> isl (build d)) ds \<Longrightarrow> map Inr (built build ds) = map build ds"
  by (induction ds) (auto split: sum.splits)

lemma built_prefix: "length (built build ds) \<le> length ds"
  by (induction ds) (auto split: sum.splits)















text \<open>A sprite whose format is \<^verbatim>\<open>null\<close> stops the load in the sprites.\<close>

lemma open_null_format_file:
  "open_project b64decode example_project (JsonFile null_format_file) =
     (example_project\<lparr>backgrounds := [], sprites := []\<rparr>, Failed AttributeError)"
  by (simp add: open_project_def load_backgrounds_def load_sprites_def null_format_file_def
        sprite_from_dict_def decode_img_bytes_def)




subsection \<open>The selection after a load\<close>

text \<open>What the last block of \<^verbatim>\<open>open_project\<close> does with the stored selection when no index is
  refused: a stored integer is kept whatever its value, and \<^verbatim>\<open>None\<close> becomes 0 when the
  collection has an entry.\<close>

lemma load_selection_effect:
  assumes "snd (load_selection st data) = None"
  shows "selected_level_index (fst (load_selection st data)) =
     (case pf_selected_level_index data of
        None \<Rightarrow> if levels st = [] then None else Some 0
      | Some i \<Rightarrow> Some i)"
  "selected_object_index (fst (load_selection st data)) =
     (case pf_selected_object_index data of
        None \<Rightarrow> if objects st = [] then None else Some 0
      | Some i \<Rightarrow> Some i)"
  "selected_background_index (fst (load_selection st data)) =
     (case pf_selected_background_index data of
        None \<Rightarrow> if backgrounds st = [] then None else Some 0
      | Some i \<Rightarrow> Some i)"
  "levels (fst (load_selection st data)) = levels st"
  "objects (fst (load_selection st data)) = objects st"
  "backgrounds (fst (load_selection st data)) = backgrounds st"
  using assms
  by (auto simp: load_selection_def select_row_def setCurrentRow_def Let_def
        split: option.splits if_splits)

text \<open>
  \<^bold>\<open>Claim C8, where the code departs from it.\<close>  \<open>stale_selection_file\<close> is a complete project
  file with one object type, one level and no background, whose stored selection is
  object 7 and background 2.  Opening it succeeds, and the editor then has object 7 and
  background 2 selected: the block under \<^verbatim>\<open># Handle selected indices safely!\<close> replaces only
  a stored \<^verbatim>\<open>None\<close>.
\<close>

theorem stale_selection_kept:
  "open_project b64decode empty_project (JsonFile stale_selection_file) = (stale_loaded, Opened) \<and>
   length (objects stale_loaded) = 1 \<and> selected_object_index stale_loaded = Some 7 \<and>
   length (backgrounds stale_loaded) = 0 \<and> selected_background_index stale_loaded = Some 2 \<and>
   length (levels stale_loaded) = 1 \<and> selected_level_index stale_loaded = Some 0"
  by (simp add: stale_loaded_def open_project_def load_backgrounds_def load_sprites_def
        load_objects_def load_levels_def load_selection_def select_row_def
        setCurrentRow_def refresh_canvas_def setFixedSize_def c_int_def
        get_current_level_def stale_selection_file_def
        empty_project_def object_from_dict_def level_from_dict_def Level_def Let_def)

text \<open>The selection is used as it is: the next left click on free ground places an instance
  of object type 7, and the click after that raises \<^verbatim>\<open>IndexError\<close> in \<^verbatim>\<open>contains_point\<close>.\<close>

lemma stale_selection_placed:
  "mousePressEvent decoded stale_loaded LeftButton 10 10 =
     Inr (stale_loaded
            \<lparr>levels := [\<lparr>level_name = ''L1'', width = 640, height = 360,
                          background_index = None,
                          instances = [\<lparr>inst_x = 0, inst_y = 0, object_index = 7\<rparr>]\<rparr>]\<rparr>)"
  "mousePressEvent decoded
     (stale_loaded
        \<lparr>levels := [\<lparr>level_name = ''L1'', width = 640, height = 360, background_index = None,
                      instances = [\<lparr>inst_x = 0, inst_y = 0, object_index = 7\<rparr>]\<rparr>]\<rparr>)
     LeftButton 10 10 = Inl IndexError"
  by (simp_all add: stale_loaded_def open_project_def load_backgrounds_def load_sprites_def
        load_objects_def load_levels_def load_selection_def select_row_def
        setCurrentRow_def refresh_canvas_def setFixedSize_def c_int_def
        stale_selection_file_def
        empty_project_def object_from_dict_def level_from_dict_def Level_def Let_def
        mousePressEvent_def get_current_level_def set_instances_def contains_point_def
        py_getitem_def)
end
